theory Spec2Isabelle
  imports Main "HOL-Library.Word"
begin

unbundle bit_operations_syntax

section \<open>Python values shared by both modules\<close>

text \<open>
  The exceptions the modelled code can raise.  Every operation that can raise returns
  a sum, \<open>Inl\<close> carrying the exception.
\<close>

datatype py_error = ValueError | KeyError | AttributeError | ZeroDivisionError

text \<open>
  \<open>str\<close> and \<open>unicode\<close> of a Python integer: its decimal digits, with a minus sign
  when it is negative.
\<close>

definition digit_char :: "nat \<Rightarrow> char" where
  "digit_char d = ''0123456789'' ! d"

function str_nat :: "nat \<Rightarrow> string" where
  "str_nat n =
     (if n < 10 then [digit_char n] else str_nat (n div 10) @ [digit_char (n mod 10)])"
  by pat_completeness auto
termination
  by (relation "measure id") auto

declare str_nat.simps [simp del]

definition str_int :: "int \<Rightarrow> string" where
  "str_int i = (if i < 0 then CHR ''-'' # str_nat (nat (- i)) else str_nat (nat i))"

section \<open>widgetstatestore.py: static properties of filters\<close>

text \<open>The filter constants of \<open>WidgetStateStore\<close>; Python integers are unbounded.\<close>

definition FILTER_VIEW_ALL :: int where "FILTER_VIEW_ALL = 0"
definition FILTER_UNWATCHED :: int where "FILTER_UNWATCHED = 1"
definition FILTER_NONFEED :: int where "FILTER_NONFEED = 2"
definition FILTER_DOWNLOADED :: int where "FILTER_DOWNLOADED = 4"
definition DEFAULT_DISPLAY_FILTERS :: int where "DEFAULT_DISPLAY_FILTERS = FILTER_VIEW_ALL"

text \<open>
  \<^verbatim>\<open>
  def toggle_filter(filters, filter_):
      if filter_ == WidgetStateStore.FILTER_VIEW_ALL:
          return filter_
      else:
          return filters ^ filter_
  \<close>
\<close>

definition toggle_filter :: "int \<Rightarrow> int \<Rightarrow> int" where
  "toggle_filter filters filter' =
     (if filter' = FILTER_VIEW_ALL then filter' else filters XOR filter')"

definition is_view_all_filter :: "int \<Rightarrow> bool" where
  "is_view_all_filter filters = (filters = FILTER_VIEW_ALL)"

definition has_unwatched_filter :: "int \<Rightarrow> bool" where
  "has_unwatched_filter filters = (filters AND FILTER_UNWATCHED \<noteq> 0)"

definition has_non_feed_filter :: "int \<Rightarrow> bool" where
  "has_non_feed_filter filters = (filters AND FILTER_NONFEED \<noteq> 0)"

definition has_downloaded_filter :: "int \<Rightarrow> bool" where
  "has_downloaded_filter filters = (filters AND FILTER_DOWNLOADED \<noteq> 0)"

section \<open>widgetstatestore.py: the store\<close>

subsection \<open>Entities, objects and messages\<close>

text \<open>
  A display id is passed as a string or as a number; \<open>unicode(display_id)\<close> makes it a
  string.
\<close>

datatype py_id = IdStr string | IdInt int

fun unicode :: "py_id \<Rightarrow> string" where
  "unicode (IdStr s) = s"
| "unicode (IdInt i) = str_int i"

type_synonym addr = nat
type_synonym display_key = "string \<times> string"
type_synonym view_key = "string \<times> string \<times> int"

text \<open>
  Modelled from the spec: the classes \<open>DisplayInfo\<close> and \<open>ViewInfo\<close> of
  \<open>miro.messages\<close> are not part of this module.  A display has its key, the selected
  view, the active filters, the list-view columns and the list-view widths; a view has
  its key, the sort state and the scroll position; every field but the key is unset
  (\<open>None\<close>) in an entity made from a key alone.  The columns are a Python list and the
  widths a Python dict: the entity holds the address of the object, so that two
  references to one object see each other's changes.
\<close>

record 'k Keyed =
  key :: 'k

record DisplayInfo = "display_key Keyed" +
  selected_view :: "int option"
  active_filters :: "int option"
  list_view_columns :: "addr option"
  list_view_widths :: "addr option"

record ViewInfo = "view_key Keyed" +
  sort_state :: "string option"
  scroll_position :: "(int \<times> int) option"

definition DisplayInfo_new :: "display_key \<Rightarrow> DisplayInfo" where
  "DisplayInfo_new k =
     \<lparr>key = k, selected_view = None, active_filters = None,
      list_view_columns = None, list_view_widths = None\<rparr>"

definition ViewInfo_new :: "view_key \<Rightarrow> ViewInfo" where
  "ViewInfo_new k = \<lparr>key = k, sort_state = None, scroll_position = None\<rparr>"

text \<open>
  \<open>SaveDisplayState(display).send_to_backend()\<close> and \<open>SaveViewState(view)\<close>: the message
  carries the entity as it is when it is sent.
\<close>

datatype message = SaveDisplayState DisplayInfo | SaveViewState ViewInfo

text \<open>
  The state the operations work on: the two dictionaries of the store, the list and
  dict objects they and the class tables refer to, the next free address for a dict,
  and the messages sent to the backend so far, oldest first.
\<close>

record store =
  displays :: "display_key \<rightharpoonup> DisplayInfo"
  views :: "view_key \<rightharpoonup> ViewInfo"
  list_heap :: "addr \<Rightarrow> string list"
  dict_heap :: "addr \<Rightarrow> (string \<rightharpoonup> int)"
  next_dict :: addr
  sent :: "message list"

subsection \<open>The class tables\<close>

definition LIST_VIEW :: int where "LIST_VIEW = 1"
definition STANDARD_VIEW :: int where "STANDARD_VIEW = 0"

definition DEFAULT_VIEW_TYPE :: "string \<rightharpoonup> int" where
  "DEFAULT_VIEW_TYPE = map_of
     [(''videos'', STANDARD_VIEW),
      (''music'', LIST_VIEW),
      (''others'', LIST_VIEW),
      (''downloading'', STANDARD_VIEW),
      (''all-feeds'', STANDARD_VIEW),
      (''feed'', STANDARD_VIEW),
      (''search'', LIST_VIEW),
      (''sharing'', LIST_VIEW),
      (''device-video'', STANDARD_VIEW),
      (''device-audio'', LIST_VIEW),
      (''playlist'', LIST_VIEW)]"

definition DEFAULT_COLUMN_WIDTHS :: "string \<rightharpoonup> int" where
  "DEFAULT_COLUMN_WIDTHS = map_of
     [(''state'', 20),
      (''name'', 130),
      (''artist'', 110),
      (''album'', 100),
      (''track'', 30),
      (''feed-name'', 70),
      (''length'', 60),
      (''genre'', 65),
      (''year'', 40),
      (''rating'', 75),
      (''size'', 65),
      (''status'', 70),
      (''date'', 70),
      (''eta'', 60),
      (''torrent-details'', 160),
      (''rate'', 60),
      (''description'', 160)]"

text \<open>
  \<^verbatim>\<open>
  DEFAULT_SORT_COLUMN[u'sharing'] = DEFAULT_SORT_COLUMN[u'videos']
  DEFAULT_SORT_COLUMN[u'device-video'] = DEFAULT_SORT_COLUMN[u'videos']
  DEFAULT_SORT_COLUMN[u'device-audio'] = DEFAULT_SORT_COLUMN[u'music']
  \<close>
\<close>

definition DEFAULT_SORT_COLUMN :: "string \<rightharpoonup> string" where
  "DEFAULT_SORT_COLUMN = map_of
     [(''videos'', ''name''),
      (''music'', ''artist''),
      (''others'', ''name''),
      (''downloading'', ''eta''),
      (''all-feeds'', ''feed-name''),
      (''feed'', ''date''),
      (''playlist'', ''playlist''),
      (''search'', ''name''),
      (''sharing'', ''name''),
      (''device-video'', ''name''),
      (''device-audio'', ''artist'')]"

text \<open>
  \<open>DEFAULT_COLUMNS\<close> maps a display type to a list object.  Seven lists are written out
  in the class body, at the addresses 0 to 6 here; the four assignments
  \<^verbatim>\<open>
  DEFAULT_COLUMNS[u'sharing'] = DEFAULT_COLUMNS[u'videos']
  DEFAULT_COLUMNS[u'device-video'] = DEFAULT_COLUMNS[u'videos']
  DEFAULT_COLUMNS[u'device-audio'] = DEFAULT_COLUMNS[u'music']
  DEFAULT_COLUMNS[u'playlist'] = DEFAULT_COLUMNS[u'music']
  \<close>
  bind a second name to the same object, not to a copy.
\<close>

definition DEFAULT_COLUMNS :: "string \<rightharpoonup> addr" where
  "DEFAULT_COLUMNS = map_of
     [(''videos'', 0),
      (''music'', 1),
      (''others'', 2),
      (''downloading'', 3),
      (''all-feeds'', 4),
      (''feed'', 5),
      (''search'', 6),
      (''sharing'', 0),
      (''device-video'', 0),
      (''device-audio'', 1),
      (''playlist'', 1)]"

definition class_lists :: "addr \<Rightarrow> string list" where
  "class_lists a =
     (if a = 0 then [''state'', ''name'', ''length'', ''feed-name'', ''size'']
      else if a = 1 then [''state'', ''name'', ''artist'', ''album'', ''track'',
                          ''feed-name'', ''length'', ''genre'', ''year'', ''rating'']
      else if a = 2 then [''name'', ''feed-name'', ''size'']
      else if a = 3 then [''name'', ''feed-name'', ''status'', ''eta'', ''rate'',
                          ''torrent-details'', ''size'']
      else if a = 4 then [''state'', ''name'', ''feed-name'', ''length'',
                          ''status'', ''size'', ''date'']
      else if a = 5 then [''state'', ''name'', ''length'', ''status'', ''size'', ''date'']
      else if a = 6 then [''state'', ''name'', ''description'']
      else [])"

text \<open>
  \<^verbatim>\<open>
  AVAILABLE_COLUMNS = {}
  for display_type, columns in DEFAULT_COLUMNS.items():
      AVAILABLE_COLUMNS[display_type] = DEFAULT_COLUMNS[display_type][:]
  AVAILABLE_COLUMNS['videos'].extend([u'rating'])
  AVAILABLE_COLUMNS['music'].extend([u'size'])
  AVAILABLE_COLUMNS['others'].extend([u'rating'])
  AVAILABLE_COLUMNS['search'].extend([u'rating'])
  \<close>
  These are copies made when the class is defined, and no operation of the store
  changes them: the table holds their contents.
\<close>

definition AVAILABLE_COLUMNS :: "string \<rightharpoonup> string list" where
  "AVAILABLE_COLUMNS = map_of
     [(''videos'', class_lists 0 @ [''rating'']),
      (''music'', class_lists 1 @ [''size'']),
      (''others'', class_lists 2 @ [''rating'']),
      (''downloading'', class_lists 3),
      (''all-feeds'', class_lists 4),
      (''feed'', class_lists 5),
      (''search'', class_lists 6 @ [''rating'']),
      (''sharing'', class_lists 0),
      (''device-video'', class_lists 0),
      (''device-audio'', class_lists 1),
      (''playlist'', class_lists 1)]"

text \<open>
  \<^verbatim>\<open>
  def __init__(self):
      self.displays = {}
      self.views = {}
  \<close>
  The first store of a process: the class lists as written, no dict object, nothing
  sent.
\<close>

definition store_init :: store where
  "store_init =
     \<lparr>displays = Map.empty, views = Map.empty, list_heap = class_lists,
      dict_heap = (\<lambda>a. Map.empty), next_dict = 0, sent = []\<rparr>"

definition is_list_view :: "int \<Rightarrow> bool" where
  "is_list_view view_type = (view_type = LIST_VIEW)"

definition is_standard_view :: "int \<Rightarrow> bool" where
  "is_standard_view view_type = (view_type = STANDARD_VIEW)"

definition get_columns_available :: "string \<Rightarrow> py_error + string list" where
  "get_columns_available display_type =
     (case AVAILABLE_COLUMNS display_type of None \<Rightarrow> Inl KeyError | Some cols \<Rightarrow> Inr cols)"

definition get_display_types :: "string set" where
  "get_display_types = dom AVAILABLE_COLUMNS"

subsection \<open>Get or create\<close>

text \<open>
  \<^verbatim>\<open>
  def setup_displays(self, message):
      for display in message.displays:
          self.displays[display.key] = display

  def setup_views(self, message):
      for view in message.views:
          self.views[view.key] = view
  \<close>
\<close>

definition setup_displays :: "DisplayInfo list \<Rightarrow> store \<Rightarrow> store" where
  "setup_displays message_displays s =
     fold (\<lambda>display s'. s'\<lparr>displays := (displays s')(key display \<mapsto> display)\<rparr>)
       message_displays s"

definition setup_views :: "ViewInfo list \<Rightarrow> store \<Rightarrow> store" where
  "setup_views message_views s =
     fold (\<lambda>view s'. s'\<lparr>views := (views s')(key view \<mapsto> view)\<rparr>) message_views s"

text \<open>Reading \<open>self.displays[key]\<close> and \<open>self.views[key]\<close>.\<close>

definition displays_at :: "display_key \<Rightarrow> store \<Rightarrow> (py_error + DisplayInfo) \<times> store" where
  "displays_at k s = (case displays s k of None \<Rightarrow> (Inl KeyError, s) | Some d \<Rightarrow> (Inr d, s))"

definition views_at :: "view_key \<Rightarrow> store \<Rightarrow> (py_error + ViewInfo) \<times> store" where
  "views_at k s = (case views s k of None \<Rightarrow> (Inl KeyError, s) | Some v \<Rightarrow> (Inr v, s))"

text \<open>
  \<^verbatim>\<open>
  def _save_display_state(self, display_type, display_id):
      display = self._get_display(display_type, display_id)
      m = SaveDisplayState(display)
      m.send_to_backend()

  def _get_display(self, display_type, display_id):
      display_id = unicode(display_id)
      key = (display_type, display_id)
      if not key in self.displays:
          new_display = DisplayInfo(key)
          self.displays[key] = new_display
          self._save_display_state(display_type, display_id)
      return self.displays[key]
  \<close>
  Each of the two calls the other.  An operation returns its outcome together with the
  store as it has left it.
\<close>

function save_display_state :: "string \<Rightarrow> py_id \<Rightarrow> store \<Rightarrow> (py_error + unit) \<times> store"
  and get_display :: "string \<Rightarrow> py_id \<Rightarrow> store \<Rightarrow> (py_error + DisplayInfo) \<times> store" where
  "save_display_state display_type display_id s =
     (case get_display display_type display_id s of
        (Inl e, s1) \<Rightarrow> (Inl e, s1)
      | (Inr display, s1) \<Rightarrow> (Inr (), s1\<lparr>sent := sent s1 @ [SaveDisplayState display]\<rparr>))"
| "get_display display_type display_id0 s =
     (let display_id = unicode display_id0;
          k = (display_type, display_id)
      in if displays s k = None
         then (let new_display = DisplayInfo_new k;
                   s1 = s\<lparr>displays := (displays s)(k \<mapsto> new_display)\<rparr>
               in case save_display_state display_type (IdStr display_id) s1 of
                    (Inl e, s2) \<Rightarrow> (Inl e, s2)
                  | (Inr u, s2) \<Rightarrow> displays_at k s2)
         else displays_at k s)"
  by pat_completeness auto
termination
  by (relation "measure (\<lambda>c. case c of
         Inl (display_type, display_id, s) \<Rightarrow>
           (if displays s (display_type, unicode display_id) = None then 3 else 1)
       | Inr (display_type, display_id, s) \<Rightarrow>
           (if displays s (display_type, unicode display_id) = None then 2 else 0))")
     auto

text \<open>
  \<^verbatim>\<open>
  def _save_view_state(self, display_type, display_id, view_type):
      view = self._get_view(display_type, display_id, view_type)
      m = SaveViewState(view)
      m.send_to_backend()

  def _get_view(self, display_type, display_id, view_type):
      display_id = unicode(display_id)
      key = (display_type, display_id, view_type)
      if not key in self.views:
          new_view = ViewInfo(key)
          self.views[key] = new_view
          self._save_view_state(display_type, display_id, view_type)
      return self.views[key]
  \<close>
\<close>

function save_view_state :: "string \<Rightarrow> py_id \<Rightarrow> int \<Rightarrow> store \<Rightarrow> (py_error + unit) \<times> store"
  and get_view :: "string \<Rightarrow> py_id \<Rightarrow> int \<Rightarrow> store \<Rightarrow> (py_error + ViewInfo) \<times> store" where
  "save_view_state display_type display_id view_type s =
     (case get_view display_type display_id view_type s of
        (Inl e, s1) \<Rightarrow> (Inl e, s1)
      | (Inr view, s1) \<Rightarrow> (Inr (), s1\<lparr>sent := sent s1 @ [SaveViewState view]\<rparr>))"
| "get_view display_type display_id0 view_type s =
     (let display_id = unicode display_id0;
          k = (display_type, display_id, view_type)
      in if views s k = None
         then (let new_view = ViewInfo_new k;
                   s1 = s\<lparr>views := (views s)(k \<mapsto> new_view)\<rparr>
               in case save_view_state display_type (IdStr display_id) view_type s1 of
                    (Inl e, s2) \<Rightarrow> (Inl e, s2)
                  | (Inr u, s2) \<Rightarrow> views_at k s2)
         else views_at k s)"
  by pat_completeness auto
termination
  by (relation "measure (\<lambda>c. case c of
         Inl (display_type, display_id, view_type, s) \<Rightarrow>
           (if views s (display_type, unicode display_id, view_type) = None then 3 else 1)
       | Inr (display_type, display_id, view_type, s) \<Rightarrow>
           (if views s (display_type, unicode display_id, view_type) = None then 2 else 0))")
     auto

declare save_display_state.simps [simp del] get_display.simps [simp del]
declare save_view_state.simps [simp del] get_view.simps [simp del]

subsection \<open>Display state\<close>

text \<open>
  Assigning to a field of the display found under a key changes the entry of the
  dictionary: the entity is one object.
\<close>

definition put_display :: "string \<Rightarrow> py_id \<Rightarrow> DisplayInfo \<Rightarrow> store \<Rightarrow> store" where
  "put_display display_type display_id display s =
     s\<lparr>displays := (displays s)((display_type, unicode display_id) \<mapsto> display)\<rparr>"

definition put_view :: "string \<Rightarrow> py_id \<Rightarrow> int \<Rightarrow> ViewInfo \<Rightarrow> store \<Rightarrow> store" where
  "put_view display_type display_id view_type view s =
     s\<lparr>views := (views s)((display_type, unicode display_id, view_type) \<mapsto> view)\<rparr>"

text \<open>
  \<^verbatim>\<open>
  def get_selected_view(self, display_type, display_id):
      display = self._get_display(display_type, display_id)
      if display.selected_view is not None:
          view = display.selected_view
      else:
          view = WidgetStateStore.DEFAULT_VIEW_TYPE[display_type]
      return view

  def set_selected_view(self, display_type, display_id, selected_view):
      display = self._get_display(display_type, display_id)
      display.selected_view = selected_view
      self._save_display_state(display_type, display_id)
  \<close>
\<close>

definition get_selected_view :: "string \<Rightarrow> py_id \<Rightarrow> store \<Rightarrow> (py_error + int) \<times> store" where
  "get_selected_view display_type display_id s =
     (case get_display display_type display_id s of
        (Inl e, s1) \<Rightarrow> (Inl e, s1)
      | (Inr display, s1) \<Rightarrow>
          (case selected_view display of
             Some view \<Rightarrow> (Inr view, s1)
           | None \<Rightarrow>
               (case DEFAULT_VIEW_TYPE display_type of
                  None \<Rightarrow> (Inl KeyError, s1)
                | Some view \<Rightarrow> (Inr view, s1))))"

definition set_selected_view ::
  "string \<Rightarrow> py_id \<Rightarrow> int \<Rightarrow> store \<Rightarrow> (py_error + unit) \<times> store" where
  "set_selected_view display_type display_id selected_view' s =
     (case get_display display_type display_id s of
        (Inl e, s1) \<Rightarrow> (Inl e, s1)
      | (Inr display, s1) \<Rightarrow>
          save_display_state display_type display_id
            (put_display display_type display_id
               (display\<lparr>selected_view := Some selected_view'\<rparr>) s1))"

text \<open>
  \<^verbatim>\<open>
  def get_filters(self, display_type, display_id):
      display = self._get_display(display_type, display_id)
      if display.active_filters is None:
          return WidgetStateStore.DEFAULT_DISPLAY_FILTERS
      return display.active_filters

  def toggle_filters(self, display_type, display_id, filter_):
      filters = self.get_filters(display_type, display_id)
      filters = WidgetStateStore.toggle_filter(filters, filter_)
      display = self._get_display(display_type, display_id)
      display.active_filters = filters
      self._save_display_state(display_type, display_id)
  \<close>
\<close>

definition get_filters :: "string \<Rightarrow> py_id \<Rightarrow> store \<Rightarrow> (py_error + int) \<times> store" where
  "get_filters display_type display_id s =
     (case get_display display_type display_id s of
        (Inl e, s1) \<Rightarrow> (Inl e, s1)
      | (Inr display, s1) \<Rightarrow>
          (case active_filters display of
             None \<Rightarrow> (Inr DEFAULT_DISPLAY_FILTERS, s1)
           | Some filters \<Rightarrow> (Inr filters, s1)))"

definition toggle_filters ::
  "string \<Rightarrow> py_id \<Rightarrow> int \<Rightarrow> store \<Rightarrow> (py_error + unit) \<times> store" where
  "toggle_filters display_type display_id filter' s =
     (case get_filters display_type display_id s of
        (Inl e, s1) \<Rightarrow> (Inl e, s1)
      | (Inr filters0, s1) \<Rightarrow>
          (let filters = toggle_filter filters0 filter' in
           case get_display display_type display_id s1 of
             (Inl e, s2) \<Rightarrow> (Inl e, s2)
           | (Inr display, s2) \<Rightarrow>
               save_display_state display_type display_id
                 (put_display display_type display_id
                    (display\<lparr>active_filters := Some filters\<rparr>) s2)))"

subsection \<open>Columns of a list view\<close>

text \<open>
  \<^verbatim>\<open>
  def get_columns_enabled(self, display_type, display_id, view_type):
      if WidgetStateStore.is_list_view(view_type):
          display = self._get_display(display_type, display_id)
          columns_enabled = display.list_view_columns
          if columns_enabled is not None:
              return columns_enabled
          else:
              return WidgetStateStore.DEFAULT_COLUMNS[display_type]
      else:
          raise ValueError()
  \<close>
  The value returned is a reference to a list object: its address.
\<close>

definition get_columns_enabled ::
  "string \<Rightarrow> py_id \<Rightarrow> int \<Rightarrow> store \<Rightarrow> (py_error + addr) \<times> store" where
  "get_columns_enabled display_type display_id view_type s =
     (if is_list_view view_type
      then (case get_display display_type display_id s of
              (Inl e, s1) \<Rightarrow> (Inl e, s1)
            | (Inr display, s1) \<Rightarrow>
                (case list_view_columns display of
                   Some columns_enabled \<Rightarrow> (Inr columns_enabled, s1)
                 | None \<Rightarrow>
                     (case DEFAULT_COLUMNS display_type of
                        None \<Rightarrow> (Inl KeyError, s1)
                      | Some columns_enabled \<Rightarrow> (Inr columns_enabled, s1))))
      else (Inl ValueError, s))"

text \<open>
  \<^verbatim>\<open>
  def set_columns_enabled(self, display_type, display_id, view_type, enabled):
      if WidgetStateStore.is_list_view(view_type):
          display = self._get_display(display_type, display_id)
          display.list_view_columns = enabled
          self._save_display_state(display_type, display_id)
      else:
          raise ValueError()
  \<close>
\<close>

definition set_columns_enabled ::
  "string \<Rightarrow> py_id \<Rightarrow> int \<Rightarrow> addr \<Rightarrow> store \<Rightarrow> (py_error + unit) \<times> store" where
  "set_columns_enabled display_type display_id view_type enabled s =
     (if is_list_view view_type
      then (case get_display display_type display_id s of
              (Inl e, s1) \<Rightarrow> (Inl e, s1)
            | (Inr display, s1) \<Rightarrow>
                save_display_state display_type display_id
                  (put_display display_type display_id
                     (display\<lparr>list_view_columns := Some enabled\<rparr>) s1))
      else (Inl ValueError, s))"

text \<open>
  \<^verbatim>\<open>
  def toggle_column(self, display_type, display_id, view_type, column):
      if WidgetStateStore.is_list_view(view_type):
          display = self._get_display(display_type, display_id)
          columns_enabled = self.get_columns_enabled(
                            display_type, display_id, view_type)
          if column in columns_enabled:
              columns_enabled.remove(column)
          else:
              columns_enabled.append(column)
          self.set_columns_enabled(display_type, display_id, view_type,
                                  columns_enabled)
      else:
          raise ValueError()
  \<close>
  \<open>remove\<close> and \<open>append\<close> change the list object in place; \<open>remove\<close> takes out the
  first occurrence.
\<close>

definition toggle_column ::
  "string \<Rightarrow> py_id \<Rightarrow> int \<Rightarrow> string \<Rightarrow> store \<Rightarrow> (py_error + unit) \<times> store" where
  "toggle_column display_type display_id view_type column s =
     (if is_list_view view_type
      then (case get_display display_type display_id s of
              (Inl e, s1) \<Rightarrow> (Inl e, s1)
            | (Inr display, s1) \<Rightarrow>
                (case get_columns_enabled display_type display_id view_type s1 of
                   (Inl e, s2) \<Rightarrow> (Inl e, s2)
                 | (Inr columns_enabled, s2) \<Rightarrow>
                     (let s3 =
                        (if column \<in> set (list_heap s2 columns_enabled)
                         then s2\<lparr>list_heap := (list_heap s2)
                                  (columns_enabled := remove1 column (list_heap s2 columns_enabled))\<rparr>
                         else s2\<lparr>list_heap := (list_heap s2)
                                  (columns_enabled := list_heap s2 columns_enabled @ [column])\<rparr>)
                      in set_columns_enabled display_type display_id view_type
                           columns_enabled s3)))
      else (Inl ValueError, s))"

text \<open>
  \<^verbatim>\<open>
  def get_column_widths(self, display_type, display_id, view_type):
      if WidgetStateStore.is_list_view(view_type):
          display = self._get_display(display_type, display_id)
          column_widths = display.list_view_widths
          if column_widths is not None:
              return column_widths
          else:
              defaults = {}
              for name in self.get_columns_enabled(
                      display_type, display_id, view_type):
                  defaults[name] = WidgetStateStore.DEFAULT_COLUMN_WIDTHS[name]
              return defaults
      else:
          raise ValueError()
  \<close>
  The loop, and the new dict it fills, which is allocated at the next free address.
\<close>

fun default_widths :: "string list \<Rightarrow> (string \<rightharpoonup> int) \<Rightarrow> py_error + (string \<rightharpoonup> int)" where
  "default_widths [] defaults = Inr defaults"
| "default_widths (name # names) defaults =
     (case DEFAULT_COLUMN_WIDTHS name of
        None \<Rightarrow> Inl KeyError
      | Some w \<Rightarrow> default_widths names (defaults(name \<mapsto> w)))"

definition get_column_widths ::
  "string \<Rightarrow> py_id \<Rightarrow> int \<Rightarrow> store \<Rightarrow> (py_error + addr) \<times> store" where
  "get_column_widths display_type display_id view_type s =
     (if is_list_view view_type
      then (case get_display display_type display_id s of
              (Inl e, s1) \<Rightarrow> (Inl e, s1)
            | (Inr display, s1) \<Rightarrow>
                (case list_view_widths display of
                   Some column_widths \<Rightarrow> (Inr column_widths, s1)
                 | None \<Rightarrow>
                     (case get_columns_enabled display_type display_id view_type s1 of
                        (Inl e, s2) \<Rightarrow> (Inl e, s2)
                      | (Inr columns_enabled, s2) \<Rightarrow>
                          (case default_widths (list_heap s2 columns_enabled) Map.empty of
                             Inl e \<Rightarrow> (Inl e, s2)
                           | Inr defaults \<Rightarrow>
                               (Inr (next_dict s2),
                                s2\<lparr>dict_heap := (dict_heap s2)(next_dict s2 := defaults),
                                   next_dict := Suc (next_dict s2)\<rparr>)))))
      else (Inl ValueError, s))"

text \<open>
  \<^verbatim>\<open>
  def update_column_widths(self, display_type, display_id, view_type, widths):
      if WidgetStateStore.is_list_view(view_type):
          display = self._get_display(display_type, display_id)
          if display.list_view_widths is None:
              display.list_view_widths = self.get_column_widths(
                                      display_type, display_id, view_type)
          display.list_view_widths.update(widths)
          self._save_display_state(display_type, display_id)
      else:
          raise ValueError()
  \<close>
\<close>

definition update_column_widths ::
  "string \<Rightarrow> py_id \<Rightarrow> int \<Rightarrow> (string \<rightharpoonup> int) \<Rightarrow> store \<Rightarrow> (py_error + unit) \<times> store" where
  "update_column_widths display_type display_id view_type widths s =
     (if is_list_view view_type
      then (case get_display display_type display_id s of
              (Inl e, s1) \<Rightarrow> (Inl e, s1)
            | (Inr display, s1) \<Rightarrow>
                (case (case list_view_widths display of
                         Some a \<Rightarrow> (Inr a, s1)
                       | None \<Rightarrow>
                           (case get_column_widths display_type display_id view_type s1 of
                              (Inl e, s2) \<Rightarrow> (Inl e, s2)
                            | (Inr a, s2) \<Rightarrow>
                                (Inr a, put_display display_type display_id
                                          (display\<lparr>list_view_widths := Some a\<rparr>) s2)))
                 of
                   (Inl e, s3) \<Rightarrow> (Inl e, s3)
                 | (Inr a, s3) \<Rightarrow>
                     save_display_state display_type display_id
                       (s3\<lparr>dict_heap := (dict_heap s3)(a := dict_heap s3 a ++ widths)\<rparr>)))
      else (Inl ValueError, s))"

subsection \<open>View state\<close>

text \<open>
  \<^verbatim>\<open>
  def get_sort_state(self, display_type, display_id, view_type):
      view = self._get_view(display_type, display_id, view_type)
      sort_state = view.sort_state
      if sort_state is None:
          sort_state = WidgetStateStore.DEFAULT_SORT_COLUMN[display_type]
      if WidgetStateStore.is_standard_view(view_type):
          return sort_state
      else:
          enabled = self.get_columns_enabled(display_type, display_id, view_type)
          column = sort_state.lstrip('-')
          if column not in enabled:
              sort_state = WidgetStateStore.DEFAULT_SORT_COLUMN[display_type]
          return sort_state
  \<close>
\<close>

definition lstrip_minus :: "string \<Rightarrow> string" where
  "lstrip_minus sort_state' = dropWhile (\<lambda>c. c = CHR ''-'') sort_state'"

definition get_sort_state ::
  "string \<Rightarrow> py_id \<Rightarrow> int \<Rightarrow> store \<Rightarrow> (py_error + string) \<times> store" where
  "get_sort_state display_type display_id view_type s =
     (case get_view display_type display_id view_type s of
        (Inl e, s1) \<Rightarrow> (Inl e, s1)
      | (Inr view, s1) \<Rightarrow>
          (case (case sort_state view of
                   Some sort_state' \<Rightarrow> Inr sort_state'
                 | None \<Rightarrow>
                     (case DEFAULT_SORT_COLUMN display_type of
                        None \<Rightarrow> Inl KeyError
                      | Some sort_state' \<Rightarrow> Inr sort_state'))
           of
             Inl e \<Rightarrow> (Inl e, s1)
           | Inr sort_state' \<Rightarrow>
               if is_standard_view view_type then (Inr sort_state', s1)
               else
                 (case get_columns_enabled display_type display_id view_type s1 of
                    (Inl e, s2) \<Rightarrow> (Inl e, s2)
                  | (Inr enabled, s2) \<Rightarrow>
                      (let column = lstrip_minus sort_state' in
                       if column \<notin> set (list_heap s2 enabled)
                       then (case DEFAULT_SORT_COLUMN display_type of
                               None \<Rightarrow> (Inl KeyError, s2)
                             | Some sort_state'' \<Rightarrow> (Inr sort_state'', s2))
                       else (Inr sort_state', s2)))))"

text \<open>
  \<^verbatim>\<open>
  def set_sort_state(self, display_type, display_id, view_type, sort_key):
      view = self._get_view(display_type, display_id, view_type)
      view.sort_state = sort_key
      self._save_view_state(display_type, display_id, view_type)

  def get_scroll_position(self, display_type, display_id, view_type):
      view = self._get_view(display_type, display_id, view_type)
      if view.scroll_position is not None:
          scroll_position = view.scroll_position
      else:
          scroll_position = (0, 0)
      return scroll_position

  def set_scroll_position(self, display_type, display_id, view_type,
          scroll_position):
      view = self._get_view(display_type, display_id, view_type)
      view.scroll_position = scroll_position
      self._save_view_state(display_type, display_id, view_type)
  \<close>
\<close>

definition set_sort_state ::
  "string \<Rightarrow> py_id \<Rightarrow> int \<Rightarrow> string \<Rightarrow> store \<Rightarrow> (py_error + unit) \<times> store" where
  "set_sort_state display_type display_id view_type sort_key' s =
     (case get_view display_type display_id view_type s of
        (Inl e, s1) \<Rightarrow> (Inl e, s1)
      | (Inr view, s1) \<Rightarrow>
          save_view_state display_type display_id view_type
            (put_view display_type display_id view_type
               (view\<lparr>sort_state := Some sort_key'\<rparr>) s1))"

definition get_scroll_position ::
  "string \<Rightarrow> py_id \<Rightarrow> int \<Rightarrow> store \<Rightarrow> (py_error + int \<times> int) \<times> store" where
  "get_scroll_position display_type display_id view_type s =
     (case get_view display_type display_id view_type s of
        (Inl e, s1) \<Rightarrow> (Inl e, s1)
      | (Inr view, s1) \<Rightarrow>
          (case scroll_position view of
             Some scroll_position' \<Rightarrow> (Inr scroll_position', s1)
           | None \<Rightarrow> (Inr (0, 0), s1)))"

definition set_scroll_position ::
  "string \<Rightarrow> py_id \<Rightarrow> int \<Rightarrow> int \<times> int \<Rightarrow> store \<Rightarrow> (py_error + unit) \<times> store" where
  "set_scroll_position display_type display_id view_type scroll_position' s =
     (case get_view display_type display_id view_type s of
        (Inl e, s1) \<Rightarrow> (Inl e, s1)
      | (Inr view, s1) \<Rightarrow>
          save_view_state display_type display_id view_type
            (put_view display_type display_id view_type
               (view\<lparr>scroll_position := Some scroll_position'\<rparr>) s1))"

subsection \<open>Unset fields and the store after a creation\<close>

text \<open>
  A field of a display or of a view is unset when the entity is not in the store or
  holds \<open>None\<close> there.
\<close>

definition selection_unset :: "store \<Rightarrow> display_key \<Rightarrow> bool" where
  "selection_unset s k =
     (case displays s k of None \<Rightarrow> True | Some display \<Rightarrow> selected_view display = None)"

definition columns_unset :: "store \<Rightarrow> display_key \<Rightarrow> bool" where
  "columns_unset s k =
     (case displays s k of None \<Rightarrow> True | Some display \<Rightarrow> list_view_columns display = None)"

definition sort_unset :: "store \<Rightarrow> view_key \<Rightarrow> bool" where
  "sort_unset s k =
     (case views s k of None \<Rightarrow> True | Some view \<Rightarrow> sort_state view = None)"

text \<open>
  The column widths of a display are unset in the same sense.
\<close>

definition widths_unset :: "store \<Rightarrow> display_key \<Rightarrow> bool" where
  "widths_unset s k =
     (case displays s k of None \<Rightarrow> True | Some display \<Rightarrow> list_view_widths display = None)"

text \<open>
  \<open>get_sort_state\<close> has a sort key to go on with when one is stored in the view or the
  display type has a default in \<open>DEFAULT_SORT_COLUMN\<close>; otherwise the lookup of the
  default raises \<open>KeyError\<close> before anything else is read.
\<close>

definition sort_available :: "store \<Rightarrow> string \<Rightarrow> view_key \<Rightarrow> bool" where
  "sort_available s display_type k =
     (\<not> sort_unset s k \<or> DEFAULT_SORT_COLUMN display_type \<noteq> None)"


text \<open>
  The store once a display, or a view, has been created in it: the new entity under its
  key, and the one message of the creation sent.
\<close>

definition created :: "string \<Rightarrow> py_id \<Rightarrow> store \<Rightarrow> store" where
  "created display_type display_id s =
     s\<lparr>displays := (displays s)((display_type, unicode display_id) \<mapsto>
                        DisplayInfo_new (display_type, unicode display_id)),
       sent := sent s @ [SaveDisplayState (DisplayInfo_new (display_type, unicode display_id))]\<rparr>"

definition view_created :: "string \<Rightarrow> py_id \<Rightarrow> int \<Rightarrow> store \<Rightarrow> store" where
  "view_created display_type display_id view_type s =
     s\<lparr>views := (views s)((display_type, unicode display_id, view_type) \<mapsto>
                    ViewInfo_new (display_type, unicode display_id, view_type)),
       sent := sent s @ [SaveViewState (ViewInfo_new (display_type, unicode display_id, view_type))]\<rparr>"

text \<open>The view that \<open>_get_view\<close> returns for a key: the stored one, or the new one.\<close>

definition view_of :: "store \<Rightarrow> view_key \<Rightarrow> ViewInfo" where
  "view_of s k = (case views s k of None \<Rightarrow> ViewInfo_new k | Some view \<Rightarrow> view)"

text \<open>
  A column list after \<open>toggle_column\<close>: the column taken out where it first occurs when
  it is in the list, appended when it is not.
\<close>

definition toggled :: "string \<Rightarrow> string list \<Rightarrow> string list" where
  "toggled column columns =
     (if column \<in> set columns then remove1 column columns else columns @ [column])"

text \<open>
  A sample store: the first store, in which the list view of the display
  \<open>(videos, 1)\<close> has the sort key \<open>artist\<close> stored.
\<close>

definition sorted_store :: store where
  "sorted_store =
     store_init\<lparr>views := [(''videos'', ''1'', LIST_VIEW) \<mapsto>
        (ViewInfo_new (''videos'', ''1'', LIST_VIEW))\<lparr>sort_state := Some ''artist''\<rparr>]\<rparr>"

text \<open>
  Sample stores for a display type outside the tables: the first store, in which the
  display \<open>(bogus, 1)\<close> has the selected view 1 and the given column list and width
  dictionary stored, its list view the sort key \<open>-name\<close> and its standard view the sort
  key \<open>date\<close>; the list object at address 7 holds the given column names.
\<close>

definition stored_store :: "addr option \<Rightarrow> addr option \<Rightarrow> string list \<Rightarrow> store" where
  "stored_store columns widths names =
     store_init
       \<lparr>displays := [(''bogus'', ''1'') \<mapsto>
                       (DisplayInfo_new (''bogus'', ''1''))
                         \<lparr>selected_view := Some 1, list_view_columns := columns,
                          list_view_widths := widths\<rparr>],
        views := [(''bogus'', ''1'', LIST_VIEW) \<mapsto>
                    (ViewInfo_new (''bogus'', ''1'', LIST_VIEW))\<lparr>sort_state := Some ''-name''\<rparr>,
                  (''bogus'', ''1'', STANDARD_VIEW) \<mapsto>
                    (ViewInfo_new (''bogus'', ''1'', STANDARD_VIEW))\<lparr>sort_state := Some ''date''\<rparr>],
        list_heap := class_lists(7 := names)\<rparr>"

section \<open>style.py: the rating cell\<close>

text \<open>
  \<open>RatingRenderer\<close>: the class constants and the icon dimensions \<open>__init__\<close> sets
  (the fields the hit test reads).  Pixel coordinates are integers.
\<close>

definition ICON_HORIZONTAL_SPACING :: int where "ICON_HORIZONTAL_SPACING = 2"
definition ICON_COUNT :: int where "ICON_COUNT = 5"

record RatingRenderer =
  icon_height :: int
  icon_width :: int

text \<open>
  \<^verbatim>\<open>
  self.icon_height = 9
  self.icon_width = self.icon_height
  \<close>
\<close>

definition RatingRenderer_init :: RatingRenderer where
  "RatingRenderer_init =
     \<lparr>icon_height = 9, icon_width = 9\<rparr>"

text \<open>
  \<^verbatim>\<open>
  def icon_index_at_x(self, x):
      icon_width_with_pad = self.icon_width + self.ICON_HORIZONTAL_SPACING
      x += int(self.ICON_HORIZONTAL_SPACING / 2)
      if 0 <= x < icon_width_with_pad * self.ICON_COUNT:
          return int(x // icon_width_with_pad) + 1
      else:
          return None
  \<close>
  Python's \<open>//\<close> rounds towards minus infinity, as \<open>div\<close> on \<open>int\<close> does.
\<close>

definition icon_index_at_x :: "RatingRenderer \<Rightarrow> int \<Rightarrow> int option" where
  "icon_index_at_x self x0 =
     (let icon_width_with_pad = icon_width self + ICON_HORIZONTAL_SPACING;
          x = x0 + ICON_HORIZONTAL_SPACING div 2
      in if 0 \<le> x \<and> x < icon_width_with_pad * ICON_COUNT
         then Some (x div icon_width_with_pad + 1)
         else None)"

text \<open>
  \<^verbatim>\<open>
  def hotspot_test(self, style, layout_manager, x, y, width, height):
      hotspot_index = self.icon_index_at_x(x)
      if hotspot_index is not None:
          return "rate:%s" % hotspot_index
      else:
          return None
  \<close>
  The hotspot is kept structured: \<open>Some i\<close> stands for the string \<open>rate:i\<close>.
\<close>

definition rating_hotspot_test :: "RatingRenderer \<Rightarrow> int \<Rightarrow> int \<Rightarrow> int option" where
  "rating_hotspot_test self x y = icon_index_at_x self x"

section \<open>style.py: the item cell\<close>

subsection \<open>The data object and the renderer\<close>

text \<open>
  The fields of the item data object (\<open>self.info\<close>) and of its download information
  that the modelled methods read.  The source's \<open>info.id\<close>, \<open>info.size\<close> and
  \<open>download_info.state\<close> are \<open>item_id\<close>, \<open>item_size\<close> and \<open>dl_state\<close> here;
  \<open>download_info\<close> is \<open>None\<close> or an object.
\<close>

record DownloadInfo =
  dl_state :: string
  downloaded_size :: int
  total_size :: int
  short_reason_failed :: string

record ItemInfo =
  item_id :: int
  state :: string
  download_info :: "DownloadInfo option"
  item_size :: int
  has_drm :: bool
  pending_auto_dl :: bool
  downloaded :: bool
  video_watched :: bool
  is_playable :: bool
  item_viewed :: bool
  resume_time :: int
  file_type :: string
  description_stripped :: "string \<times> (nat \<times> nat \<times> string) list"

text \<open>
  Colours stay symbolic: \<open>css_to_color\<close> applied to its string, and the two colours of
  \<open>widgetutil\<close>.
\<close>

datatype color = css_to_color string | BLACK | WHITE

record ImageSurface =
  width :: int
  height :: int

type_synonym ThreeImageSurface = "ImageSurface \<times> ImageSurface \<times> ImageSurface"

text \<open>
  What a draw callback does to its surroundings, in order: \<open>image.draw(context, x, y,
  width, height)\<close>, \<open>surface.draw(context, x, y, width)\<close> of a three-image surface, and
  \<open>self.signals.emit(name, info)\<close>.
\<close>

datatype effect =
  ImageDraw ImageSurface int int int int
  | ThreeImageDraw ThreeImageSurface int int int
  | SignalEmit string ItemInfo

text \<open>
  The item renderer and its emblem drawer are two objects.  The drawer takes \<open>images\<close>
  and \<open>is_podcast\<close> from the renderer when it is built, and the renderer assigns the
  drawer's \<open>info\<close> and \<open>hotspot\<close> before each use; the attributes the two classes
  have under the same name are declared once, in the record both extend.
\<close>

record CellAttrs =
  info :: ItemInfo
  images :: "string \<rightharpoonup> ImageSurface"
  hotspot :: "string option"
  is_podcast :: bool

text \<open>
  The renderer's own attributes.  \<open>download_mode\<close> and \<open>throbber_mode\<close> exist only once
  \<open>calc_download_mode\<close> has assigned them: \<open>None\<close> is the missing attribute.
  \<open>self_download_info\<close> is the renderer's \<open>self.download_info\<close>.
\<close>

record ItemRenderer = CellAttrs +
  self_download_info :: "DownloadInfo option"
  download_mode :: "bool option"
  throbber_mode :: "bool option"
  selected :: bool
  hover :: bool
  progress_throbber_surfaces :: "ThreeImageSurface list"
  attrs :: "string \<rightharpoonup> int"

definition MIN_WIDTH :: int where "MIN_WIDTH = 600"
definition HEIGHT :: int where "HEIGHT = 147"

subsection \<open>Loading the images\<close>

definition all_images :: "string list" where
  "all_images =
     [''background-left'', ''background-middle'',
      ''background-right'', ''dl-speed'', ''dl-stats-left-cap'',
      ''dl-stats-middle'', ''dl-stats-right-cap'',
      ''dl-stats-selected-left-cap'', ''dl-stats-selected-middle'',
      ''dl-stats-selected-right-cap'', ''download-pause'',
      ''download-pause-pressed'', ''download-resume'',
      ''download-resume-pressed'', ''download-stop'',
      ''download-stop-pressed'', ''drm-middle'', ''drm-cap'',
      ''expiring-cap'', ''expiring-middle'', ''failed-middle'',
      ''failed-cap'', ''keep'', ''keep-pressed'', ''menu'', ''menu-pressed'',
      ''pause'', ''pause-pressed'', ''play'', ''play-pressed'', ''remove'',
      ''remove-playlist'', ''remove-playlist-pressed'',
      ''remove-pressed'', ''saved'', ''status-icon-alert'', ''newly-cap'',
      ''newly-middle'', ''progress-left-cap'', ''progress-middle'',
      ''progress-right-cap'', ''progress-throbber-1-left'',
      ''progress-throbber-1-middle'', ''progress-throbber-1-right'',
      ''progress-throbber-2-left'', ''progress-throbber-2-middle'',
      ''progress-throbber-2-right'', ''progress-throbber-3-left'',
      ''progress-throbber-3-middle'', ''progress-throbber-3-right'',
      ''progress-throbber-4-left'', ''progress-throbber-4-middle'',
      ''progress-throbber-4-right'', ''progress-throbber-5-left'',
      ''progress-throbber-5-middle'', ''progress-throbber-5-right'',
      ''progress-track'', ''queued-middle'', ''queued-cap'', ''resume-cap'',
      ''resume-middle'', ''selected-background-left'',
      ''selected-background-middle'', ''selected-background-right'',
      ''time-left'', ''ul-speed'', ''unplayed-cap'', ''unplayed-middle'']"

text \<open>
  \<^verbatim>\<open>
  self.images = {}
  for image_name in all_images:
      filename = 'item-renderer-%s.png' % image_name
      surface = imagepool.get_surface(resources.path(
          os.path.join('images', filename)))
      self.images[image_name] = surface
  self.images['download-arrow'] = imagepool.get_surface(
          resources.path('images/download-arrow.png'))
  self.progress_throbber_surfaces = []
  for i in xrange(5):
      left = self.images['progress-throbber-%d-left' % (i + 1)]
      middle = self.images['progress-throbber-%d-middle' % (i + 1)]
      right = self.images['progress-throbber-%d-right' % (i + 1)]
      surface = widgetutil.ThreeImageSurface()
      surface.set_images(left, middle, right)
      self.progress_throbber_surfaces.append(surface)
  \<close>
  The image pool is the parameter \<open>get_surface\<close>, from the file name to the decoded
  surface.  A dictionary read of a missing key is \<open>KeyError\<close>.
\<close>

definition load_images :: "(string \<Rightarrow> ImageSurface) \<Rightarrow> (string \<rightharpoonup> ImageSurface)" where
  "load_images get_surface =
     (fold (\<lambda>image_name m. m(image_name \<mapsto> get_surface (''item-renderer-'' @ image_name @ ''.png'')))
        all_images Map.empty)
     (''download-arrow'' \<mapsto> get_surface ''download-arrow.png'')"

fun throbber_stages ::
  "(string \<rightharpoonup> ImageSurface) \<Rightarrow> nat list \<Rightarrow> py_error + ThreeImageSurface list" where
  "throbber_stages imgs [] = Inr []"
| "throbber_stages imgs (i # is) =
     (case imgs (''progress-throbber-'' @ str_nat (i + 1) @ ''-left'') of
        None \<Rightarrow> Inl KeyError
      | Some left \<Rightarrow>
     (case imgs (''progress-throbber-'' @ str_nat (i + 1) @ ''-middle'') of
        None \<Rightarrow> Inl KeyError
      | Some middle \<Rightarrow>
     (case imgs (''progress-throbber-'' @ str_nat (i + 1) @ ''-right'') of
        None \<Rightarrow> Inl KeyError
      | Some right \<Rightarrow>
     (case throbber_stages imgs is of
        Inl e \<Rightarrow> Inl e
      | Inr rest \<Rightarrow> Inr ((left, middle, right) # rest)))))"

definition setup_images ::
  "(string \<Rightarrow> ImageSurface) \<Rightarrow> ItemRenderer \<Rightarrow> py_error + ItemRenderer" where
  "setup_images get_surface self =
     (let imgs = load_images get_surface in
      case throbber_stages imgs [0..<5] of
        Inl e \<Rightarrow> Inl e
      | Inr surfaces \<Rightarrow>
          Inr (self\<lparr>images := imgs, progress_throbber_surfaces := surfaces\<rparr>))"

subsection \<open>Size and mode\<close>

text \<open>
  \<^verbatim>\<open>
  def get_size(self, style, layout_manager):
      return self.MIN_WIDTH, self.HEIGHT
  \<close>
\<close>

definition get_size :: "ItemRenderer \<Rightarrow> int \<times> int" where
  "get_size self = (MIN_WIDTH, HEIGHT)"

text \<open>
  \<^verbatim>\<open>
  def calc_download_mode(self):
      self.download_mode = (self.info.state in ('downloading', 'paused'))
      if self.download_mode:
          dl_info = self.info.download_info
          self.throbber_mode = (dl_info.downloaded_size > 0 and
                  dl_info.total_size < 0)
  \<close>
  A method returns its outcome together with the renderer as it has left it: an
  exception does not undo the assignments made before it.  Reading an attribute of
  \<open>None\<close> is \<open>AttributeError\<close>.
\<close>

definition calc_download_mode :: "ItemRenderer \<Rightarrow> (py_error + unit) \<times> ItemRenderer" where
  "calc_download_mode self =
     (let self1 = self\<lparr>download_mode :=
                    Some (state (info self) = ''downloading'' \<or> state (info self) = ''paused'')\<rparr>
      in if download_mode self1 = Some True
         then (case download_info (info self1) of
                 None \<Rightarrow> (Inl AttributeError, self1)
               | Some dl_info \<Rightarrow>
                   (Inr (), self1\<lparr>throbber_mode :=
                       Some (downloaded_size dl_info > 0 \<and> total_size dl_info < 0)\<rparr>))
         else (Inr (), self1))"

subsection \<open>The progress bar\<close>

text \<open>
  \<^verbatim>\<open>
  def draw_progress_throbber(self, context, x, y, width, height):
      throbber_count = self.attrs.get('throbber-value', 0)
      index = throbber_count % len(self.progress_throbber_surfaces)
      surface = self.progress_throbber_surfaces[index]
      surface.draw(context, x, y, width)
      self.signals.emit('throbber-drawn', self.info)
  \<close>
  With a positive modulus Python's \<open>%\<close> is \<open>mod\<close>, so the index is in range.
\<close>

definition draw_progress_throbber ::
  "ItemRenderer \<Rightarrow> int \<Rightarrow> int \<Rightarrow> int \<Rightarrow> int \<Rightarrow> (py_error + unit) \<times> effect list" where
  "draw_progress_throbber self x y width' height' =
     (let throbber_count = (case attrs self ''throbber-value'' of None \<Rightarrow> 0 | Some v \<Rightarrow> v);
          n = int (length (progress_throbber_surfaces self))
      in if n = 0 then (Inl ZeroDivisionError, [])
         else (let index = throbber_count mod n;
                   surface = progress_throbber_surfaces self ! nat index
               in (Inr (), [ThreeImageDraw surface x y width',
                            SignalEmit ''throbber-drawn'' (info self)])))"

text \<open>
  \<^verbatim>\<open>
  def draw_progress_bar(self, context, x, y, width, height):
      if self.throbber_mode:
          self.draw_progress_throbber(context, x, y, width, height)
          return
      if self.info.size == 0:
          return
      progress_ratio = (float(self.info.download_info.downloaded_size) /
              self.info.size)
      progress_width = int(width * progress_ratio)
      left = self.images['progress-left-cap']
      middle = self.images['progress-middle']
      right = self.images['progress-right-cap']

      left_width = min(left.width, progress_width)
      right_width = max(0, progress_width - (width - right.width))
      middle_width = max(0, progress_width - left_width - right_width)

      left.draw(context, x, y, left_width, height)
      middle.draw(context, x + left.width, y, middle_width, height)
      right.draw(context, x + width - right.width, y, right_width, height)
  \<close>
  The one floating-point expression, \<open>int(width * (float(downloaded_size) / size))\<close>,
  is the parameter \<open>scaled\<close> applied to \<open>width\<close>, \<open>downloaded_size\<close> and \<open>size\<close>.
\<close>

definition draw_progress_bar ::
  "(int \<Rightarrow> int \<Rightarrow> int \<Rightarrow> int) \<Rightarrow> ItemRenderer \<Rightarrow> int \<Rightarrow> int \<Rightarrow> int \<Rightarrow> int
     \<Rightarrow> (py_error + unit) \<times> effect list" where
  "draw_progress_bar scaled self x y width' height' =
     (case throbber_mode self of
        None \<Rightarrow> (Inl AttributeError, [])
      | Some True \<Rightarrow> draw_progress_throbber self x y width' height'
      | Some False \<Rightarrow>
          if item_size (info self) = 0 then (Inr (), [])
          else
            (case download_info (info self) of
               None \<Rightarrow> (Inl AttributeError, [])
             | Some dl_info \<Rightarrow>
            (let progress_width =
                   scaled width' (downloaded_size dl_info) (item_size (info self)) in
             case images self ''progress-left-cap'' of
               None \<Rightarrow> (Inl KeyError, [])
             | Some left \<Rightarrow>
            (case images self ''progress-middle'' of
               None \<Rightarrow> (Inl KeyError, [])
             | Some middle \<Rightarrow>
            (case images self ''progress-right-cap'' of
               None \<Rightarrow> (Inl KeyError, [])
             | Some right \<Rightarrow>
            (let left_width = min (width left) progress_width;
                 right_width = max 0 (progress_width - (width' - width right));
                 middle_width = max 0 (progress_width - left_width - right_width)
             in (Inr (),
                 [ImageDraw left x y left_width height',
                  ImageDraw middle (x + width left) y middle_width height',
                  ImageDraw right (x + width' - width right) y right_width height'])))))))"

subsection \<open>The emblem\<close>

text \<open>
  The process-wide collaborators the emblem code asks: the playback manager's
  \<open>is_playing_id\<close>, the configuration's \<open>get\<close> on one of the three resume
  preferences, and \<open>displaytext.short_time_string\<close>.  They are passed in as a record.
\<close>

datatype pref = RESUME_PODCASTS_MODE | RESUME_VIDEOS_MODE | RESUME_MUSIC_MODE

record App =
  is_playing_id :: "int \<Rightarrow> bool"
  config_get :: "pref \<Rightarrow> bool"
  short_time_string :: "int \<Rightarrow> string"

text \<open>The style constants the drawer copies from the renderer; \<open>gettext\<close> is the identity.\<close>

definition EMBLEM_TEXT_PAD_END :: int where "EMBLEM_TEXT_PAD_END = 20"
definition EMBLEM_TEXT_PAD_END_SMALL :: int where "EMBLEM_TEXT_PAD_END_SMALL = 6"

definition RESUME_TEXT_COLOR :: color where "RESUME_TEXT_COLOR = css_to_color ''#306219''"
definition RESUME_TEXT_SHADOW :: color where "RESUME_TEXT_SHADOW = WHITE"
definition UNPLAYED_TEXT_COLOR :: color where "UNPLAYED_TEXT_COLOR = css_to_color ''#d8ffc7''"
definition UNPLAYED_TEXT_SHADOW :: color where "UNPLAYED_TEXT_SHADOW = BLACK"
definition NEWLY_AVAILABLE_TEXT_COLOR :: color where
  "NEWLY_AVAILABLE_TEXT_COLOR = css_to_color ''#e1efff''"
definition NEWLY_AVAILABLE_TEXT_SHADOW :: color where "NEWLY_AVAILABLE_TEXT_SHADOW = BLACK"
definition DRM_TEXT_COLOR :: color where "DRM_TEXT_COLOR = css_to_color ''#582016''"
definition DRM_TEXT_SHADOW :: color where "DRM_TEXT_SHADOW = WHITE"
definition QUEUED_TEXT_COLOR :: color where "QUEUED_TEXT_COLOR = css_to_color ''#4a2c00''"
definition QUEUED_TEXT_SHADOW :: color where "QUEUED_TEXT_SHADOW = WHITE"
definition FAILED_TEXT_COLOR :: color where "FAILED_TEXT_COLOR = css_to_color ''#ffe7e7''"
definition FAILED_TEXT_SHADOW :: color where "FAILED_TEXT_SHADOW = BLACK"

definition ERROR_TEXT :: string where "ERROR_TEXT = ''Error''"
definition QUEUED_TEXT :: string where "QUEUED_TEXT = ''Queued for Auto-download''"
definition UNPLAYED_TEXT :: string where "UNPLAYED_TEXT = ''Unplayed''"
definition CURRENTLY_PLAYING_TEXT :: string where "CURRENTLY_PLAYING_TEXT = ''Currently Playing''"
definition NEWLY_AVAILABLE_TEXT :: string where "NEWLY_AVAILABLE_TEXT = ''Newly Available''"

text \<open>
  The drawer's own attributes: the source's \<open>text\<close> and \<open>image\<close> are \<open>text'\<close> and
  \<open>image'\<close>.  \<open>text_color\<close>, \<open>text_shadow\<close> and \<open>emblem\<close> are assigned only by a row
  that matches: \<open>None\<close> is the missing attribute, and a call in which no row matches
  leaves them as they were.
\<close>

record EmblemDrawer = CellAttrs +
  text' :: "string option"
  image' :: "ImageSurface option"
  margin_right :: int
  text_bold :: bool
  text_color :: "color option"
  text_shadow :: "color option"
  emblem :: "string option"

text \<open>
  \<^verbatim>\<open>
  def should_resume_item(self):
      if self.is_podcast:
          resume_pref = prefs.RESUME_PODCASTS_MODE
      elif self.info.file_type == u'video':
          resume_pref = prefs.RESUME_VIDEOS_MODE
      else:
          resume_pref = prefs.RESUME_MUSIC_MODE
      return (self.info.is_playable
            and self.info.item_viewed
            and self.info.resume_time > 0
            and app.config.get(resume_pref))
  \<close>
\<close>

definition should_resume_item :: "App \<Rightarrow> EmblemDrawer \<Rightarrow> bool" where
  "should_resume_item app self =
     (let resume_pref =
            (if is_podcast self then RESUME_PODCASTS_MODE
             else if file_type (info self) = ''video'' then RESUME_VIDEOS_MODE
             else RESUME_MUSIC_MODE)
      in is_playable (info self)
         \<and> item_viewed (info self)
         \<and> resume_time (info self) > 0
         \<and> config_get app resume_pref)"

text \<open>
  The guard of the second branch, \<open>self.info.download_info and
  self.info.download_info.state == 'failed'\<close>: the download information when the guard
  holds.
\<close>

definition failed_download :: "ItemInfo \<Rightarrow> DownloadInfo option" where
  "failed_download i =
     (case download_info i of
        None \<Rightarrow> None
      | Some dl_info \<Rightarrow> if dl_state dl_info = ''failed'' then Some dl_info else None)"

text \<open>
  \<^verbatim>\<open>
  def _calc_emblem_parts(self):
      self.text = self.image = None
      self.margin_right = self.EMBLEM_TEXT_PAD_END
      self.text_bold = False

      if self.info.has_drm:
          self.text_bold = True
          self.text = _('DRM locked')
          self.text_color = self.DRM_TEXT_COLOR
          self.text_shadow = self.DRM_TEXT_SHADOW
          self.emblem = 'drm'
      elif (self.info.download_info
              and self.info.download_info.state == 'failed'):
          self.text_color = self.FAILED_TEXT_COLOR
          self.text_shadow = self.FAILED_TEXT_SHADOW
          self.text_bold = True
          self.image = self.images['status-icon-alert']
          self.text = u"%s-%s" % (self.ERROR_TEXT,
                  self.info.download_info.short_reason_failed)
          self.emblem = 'failed'
      elif self.info.pending_auto_dl:
          self.text_color = self.QUEUED_TEXT_COLOR
          self.text_shadow = self.QUEUED_TEXT_SHADOW
          self.text = self.QUEUED_TEXT
          self.emblem = 'queued'
      elif (self.info.downloaded
              and app.playback_manager.is_playing_id(self.info.id)):
          self.text = self.CURRENTLY_PLAYING_TEXT
          self.text_color = self.UNPLAYED_TEXT_COLOR
          self.text_shadow = self.UNPLAYED_TEXT_SHADOW
          self.emblem = 'unplayed'
      elif (self.info.downloaded and not self.info.video_watched and
              self.info.is_playable):
          self.text_color = self.UNPLAYED_TEXT_COLOR
          self.text_shadow = self.UNPLAYED_TEXT_SHADOW
          self.text_bold = True
          self.text = self.UNPLAYED_TEXT
          self.emblem = 'unplayed'
      elif self.should_resume_item():
          self.text_bold = True
          self.text_color = self.RESUME_TEXT_COLOR
          self.text_shadow = self.RESUME_TEXT_SHADOW
          self.text = _("Resume at %(resumetime)s",
                   {"resumetime": displaytext.short_time_string(self.info.resume_time)})
          self.margin_right = self.EMBLEM_TEXT_PAD_END_SMALL
          self.emblem = 'resume'
      elif not self.info.item_viewed and self.info.state == "new":
          self.text_bold = True
          self.text_color = self.NEWLY_AVAILABLE_TEXT_COLOR
          self.text_shadow = self.NEWLY_AVAILABLE_TEXT_SHADOW
          self.text = self.NEWLY_AVAILABLE_TEXT
          self.margin_right = self.EMBLEM_TEXT_PAD_END_SMALL
          self.emblem = 'newly'
  \<close>
\<close>

definition calc_emblem_parts :: "App \<Rightarrow> EmblemDrawer \<Rightarrow> (py_error + unit) \<times> EmblemDrawer" where
  "calc_emblem_parts app self0 =
     (let self = self0\<lparr>text' := None, image' := None,
                       margin_right := EMBLEM_TEXT_PAD_END, text_bold := False\<rparr>
      in
      if has_drm (info self) then
        (Inr (), self\<lparr>text_bold := True,
                      text' := Some ''DRM locked'',
                      text_color := Some DRM_TEXT_COLOR,
                      text_shadow := Some DRM_TEXT_SHADOW,
                      emblem := Some ''drm''\<rparr>)
      else
      (case failed_download (info self) of
         Some dl_info \<Rightarrow>
           (let self1 = self\<lparr>text_color := Some FAILED_TEXT_COLOR,
                              text_shadow := Some FAILED_TEXT_SHADOW,
                              text_bold := True\<rparr>
            in case images self1 ''status-icon-alert'' of
                 None \<Rightarrow> (Inl KeyError, self1)
               | Some surface \<Rightarrow>
                   (Inr (), self1\<lparr>image' := Some surface,
                                  text' := Some (ERROR_TEXT @ ''-'' @ short_reason_failed dl_info),
                                  emblem := Some ''failed''\<rparr>))
       | None \<Rightarrow>
      if pending_auto_dl (info self) then
        (Inr (), self\<lparr>text_color := Some QUEUED_TEXT_COLOR,
                      text_shadow := Some QUEUED_TEXT_SHADOW,
                      text' := Some QUEUED_TEXT,
                      emblem := Some ''queued''\<rparr>)
      else if downloaded (info self) \<and> is_playing_id app (item_id (info self)) then
        (Inr (), self\<lparr>text' := Some CURRENTLY_PLAYING_TEXT,
                      text_color := Some UNPLAYED_TEXT_COLOR,
                      text_shadow := Some UNPLAYED_TEXT_SHADOW,
                      emblem := Some ''unplayed''\<rparr>)
      else if downloaded (info self) \<and> \<not> video_watched (info self)
              \<and> is_playable (info self) then
        (Inr (), self\<lparr>text_color := Some UNPLAYED_TEXT_COLOR,
                      text_shadow := Some UNPLAYED_TEXT_SHADOW,
                      text_bold := True,
                      text' := Some UNPLAYED_TEXT,
                      emblem := Some ''unplayed''\<rparr>)
      else if should_resume_item app self then
        (Inr (), self\<lparr>text_bold := True,
                      text_color := Some RESUME_TEXT_COLOR,
                      text_shadow := Some RESUME_TEXT_SHADOW,
                      text' := Some (''Resume at '' @ short_time_string app (resume_time (info self))),
                      margin_right := EMBLEM_TEXT_PAD_END_SMALL,
                      emblem := Some ''resume''\<rparr>)
      else if \<not> item_viewed (info self) \<and> state (info self) = ''new'' then
        (Inr (), self\<lparr>text_bold := True,
                      text_color := Some NEWLY_AVAILABLE_TEXT_COLOR,
                      text_shadow := Some NEWLY_AVAILABLE_TEXT_SHADOW,
                      text' := Some NEWLY_AVAILABLE_TEXT,
                      margin_right := EMBLEM_TEXT_PAD_END_SMALL,
                      emblem := Some ''newly''\<rparr>)
      else (Inr (), self)))"

text \<open>
  \<open>add_to_layout\<close> draws an emblem exactly when the computed text or image is there
  (\<open>if self.image is None and self.text is None\<close> it adds the button alone).  The emblem
  shown is the text together with the key of the background images.
\<close>

definition shown_emblem :: "EmblemDrawer \<Rightarrow> (string option \<times> string option) option" where
  "shown_emblem self =
     (if image' self = None \<and> text' self = None then None
      else Some (text' self, emblem self))"

subsection \<open>The emblem table of the specification\<close>

text \<open>
  The precedence chain as the specification words it: seven rows, each a condition on
  the item with the text and the emblem key it gives, tested in this order; the first
  row whose condition holds is the one that applies.
\<close>

datatype emblem_row =
  Row_drm_locked | Row_download_failed | Row_pending_auto_download
  | Row_currently_playing | Row_unplayed | Row_resume | Row_newly_available

definition spec_emblem_rows :: "App \<Rightarrow> bool \<Rightarrow> ItemInfo \<Rightarrow> (bool \<times> emblem_row) list" where
  "spec_emblem_rows app podcast i =
     [(has_drm i, Row_drm_locked),
      ((case download_info i of None \<Rightarrow> False | Some dl_info \<Rightarrow> dl_state dl_info = ''failed''),
         Row_download_failed),
      (pending_auto_dl i, Row_pending_auto_download),
      (downloaded i \<and> is_playing_id app (item_id i), Row_currently_playing),
      (downloaded i \<and> is_playable i \<and> \<not> video_watched i, Row_unplayed),
      (is_playable i \<and> item_viewed i \<and> resume_time i > 0
         \<and> config_get app (if podcast then RESUME_PODCASTS_MODE
                            else if file_type i = ''video'' then RESUME_VIDEOS_MODE
                            else RESUME_MUSIC_MODE),
         Row_resume),
      (\<not> item_viewed i \<and> state i = ''new'', Row_newly_available)]"

definition spec_first_row :: "App \<Rightarrow> bool \<Rightarrow> ItemInfo \<Rightarrow> emblem_row option" where
  "spec_first_row app podcast i = map_option snd (find fst (spec_emblem_rows app podcast i))"

fun spec_row_text :: "App \<Rightarrow> ItemInfo \<Rightarrow> emblem_row \<Rightarrow> string" where
  "spec_row_text app i Row_drm_locked = ''DRM locked''"
| "spec_row_text app i Row_download_failed =
     ''Error-'' @ (case download_info i of None \<Rightarrow> [] | Some dl_info \<Rightarrow> short_reason_failed dl_info)"
| "spec_row_text app i Row_pending_auto_download = ''Queued for Auto-download''"
| "spec_row_text app i Row_currently_playing = ''Currently Playing''"
| "spec_row_text app i Row_unplayed = ''Unplayed''"
| "spec_row_text app i Row_resume = ''Resume at '' @ short_time_string app (resume_time i)"
| "spec_row_text app i Row_newly_available = ''Newly Available''"

fun spec_row_key :: "emblem_row \<Rightarrow> string" where
  "spec_row_key Row_drm_locked = ''drm''"
| "spec_row_key Row_download_failed = ''failed''"
| "spec_row_key Row_pending_auto_download = ''queued''"
| "spec_row_key Row_currently_playing = ''unplayed''"
| "spec_row_key Row_unplayed = ''unplayed''"
| "spec_row_key Row_resume = ''resume''"
| "spec_row_key Row_newly_available = ''newly''"

subsection \<open>The description preface of a playlist item\<close>

definition PLAYLIST_ORDER_COLOR :: color where "PLAYLIST_ORDER_COLOR = BLACK"

text \<open>
  \<^verbatim>\<open>
  def add_description_preface(self, textbox):
      order_number = self.playlist_sorter.sort_key(self.info) + 1
      if self.info.description_stripped[0]:
          sort_key_preface = "%s - " % order_number
      else:
          sort_key_preface = str(order_number)
      textbox.append_text(sort_key_preface, color=self.PLAYLIST_ORDER_COLOR)
      return len(sort_key_preface)
  \<close>
  A text box is the list of its runs, each with its colour; the playlist sorter's
  \<open>sort_key\<close> is a parameter.  \<open>description_stripped\<close> is the pair of the text and its
  link spans, and an empty string is false.
\<close>

type_synonym textbox = "(string \<times> color) list"

definition add_description_preface ::
  "(ItemInfo \<Rightarrow> int) \<Rightarrow> ItemRenderer \<Rightarrow> textbox \<Rightarrow> nat \<times> textbox" where
  "add_description_preface sort_key' self textbox =
     (let order_number = sort_key' (info self) + 1;
          sort_key_preface =
            (if fst (description_stripped (info self)) \<noteq> []
             then str_int order_number @ '' - ''
             else str_int order_number)
      in (length sort_key_preface, textbox @ [(sort_key_preface, PLAYLIST_ORDER_COLOR)]))"

subsection \<open>Loaded images and sample inputs\<close>

text \<open>
  A renderer whose images are loaded: every name of \<open>all_images\<close> is a key of
  \<open>self.images\<close> and there are five throbber stages, as \<open>setup_images\<close> leaves them.
\<close>

definition images_loaded :: "ItemRenderer \<Rightarrow> bool" where
  "images_loaded self =
     ((\<forall>image_name \<in> set all_images. images self image_name \<noteq> None)
      \<and> length (progress_throbber_surfaces self) = 5)"

text \<open>
  Sample inputs: an image pool in which every surface is 10 by 22 pixels; an item whose
  download has started with the total size unknown and whose size is 0; a renderer that
  has just been built.
\<close>

definition example_surface :: "string \<Rightarrow> ImageSurface" where
  "example_surface file_name = \<lparr>width = 10, height = 22\<rparr>"

definition example_download :: DownloadInfo where
  "example_download =
     \<lparr>dl_state = ''downloading'', downloaded_size = 4096, total_size = - 1,
      short_reason_failed = ''''\<rparr>"

definition example_info :: ItemInfo where
  "example_info =
     \<lparr>item_id = 7, state = ''downloading'', download_info = Some example_download,
      item_size = 0, has_drm = False, pending_auto_dl = False, downloaded = False,
      video_watched = False, is_playable = False, item_viewed = False, resume_time = 0,
      file_type = ''video'', description_stripped = ('''', [])\<rparr>"

definition blank_renderer :: "ItemInfo \<Rightarrow> ItemRenderer" where
  "blank_renderer i =
     \<lparr>info = i, images = Map.empty, hotspot = None, is_podcast = False,
      self_download_info = None, download_mode = None, throbber_mode = None,
      selected = False, hover = False, progress_throbber_surfaces = [],
      attrs = Map.empty\<rparr>"

definition example_stages :: "ThreeImageSurface list" where
  "example_stages = replicate 5 (example_surface [], example_surface [], example_surface [])"

definition example_renderer :: "ItemInfo \<Rightarrow> ItemRenderer" where
  "example_renderer i =
     (blank_renderer i)\<lparr>images := load_images example_surface,
                          progress_throbber_surfaces := example_stages\<rparr>"

text \<open>
  A downloaded, playable, unwatched item that is also DRM-locked, and a drawer holding
  it; nothing is playing and every resume preference is on.
\<close>

definition example_app :: App where
  "example_app =
     \<lparr>is_playing_id = (\<lambda>i. False), config_get = (\<lambda>p. True), short_time_string = str_int\<rparr>"

definition drm_unplayed_info :: ItemInfo where
  "drm_unplayed_info =
     \<lparr>item_id = 8, state = ''newly-downloaded'', download_info = None,
      item_size = 1000, has_drm = True, pending_auto_dl = False, downloaded = True,
      video_watched = False, is_playable = True, item_viewed = False, resume_time = 0,
      file_type = ''video'', description_stripped = ('''', [])\<rparr>"

definition example_drawer :: "ItemInfo \<Rightarrow> EmblemDrawer" where
  "example_drawer i =
     \<lparr>info = i, images = load_images example_surface, hotspot = None, is_podcast = False,
      text' = None, image' = None, margin_right = 0, text_bold = False,
      text_color = None, text_shadow = None, emblem = None\<rparr>"

section \<open>Filter toggling\<close>

lemma xor_twice_int: "(m XOR f) XOR f = (m::int)"
  by (simp add: xor.assoc)

text \<open>
  Claim C7.  Toggling the view-all filter gives view-all from every mask; every other
  filter is combined with the mask by bitwise exclusive or.  Starting from view-all,
  toggling the unwatched filter gives the mask whose only set bit is the unwatched bit
  (bit 0), and toggling the same filter twice, when it is not view-all, gives the
  original mask back.
\<close>

theorem toggle_filter_absorbing_xor:
  "toggle_filter m FILTER_VIEW_ALL = FILTER_VIEW_ALL
   \<and> (f \<noteq> FILTER_VIEW_ALL \<longrightarrow> toggle_filter m f = m XOR f)
   \<and> toggle_filter FILTER_VIEW_ALL FILTER_UNWATCHED = FILTER_UNWATCHED
   \<and> (\<forall>n. bit (toggle_filter FILTER_VIEW_ALL FILTER_UNWATCHED) n \<longleftrightarrow> n = 0)
   \<and> has_unwatched_filter (toggle_filter FILTER_VIEW_ALL FILTER_UNWATCHED)
   \<and> \<not> has_non_feed_filter (toggle_filter FILTER_VIEW_ALL FILTER_UNWATCHED)
   \<and> \<not> has_downloaded_filter (toggle_filter FILTER_VIEW_ALL FILTER_UNWATCHED)
   \<and> (f \<noteq> FILTER_VIEW_ALL \<longrightarrow> toggle_filter (toggle_filter m f) f = m)"
proof -
  have u: "toggle_filter FILTER_VIEW_ALL FILTER_UNWATCHED = 1"
    by (simp add: toggle_filter_def FILTER_VIEW_ALL_def FILTER_UNWATCHED_def)
  have b: "\<forall>n. bit (1::int) n \<longleftrightarrow> n = 0"
    by (simp add: bit_1_iff)
  have twice: "f \<noteq> FILTER_VIEW_ALL \<longrightarrow> toggle_filter (toggle_filter m f) f = m"
    by (simp add: toggle_filter_def xor_twice_int)
  show ?thesis
    using u b twice
    by (simp add: toggle_filter_def FILTER_VIEW_ALL_def FILTER_UNWATCHED_def
        FILTER_NONFEED_def FILTER_DOWNLOADED_def has_unwatched_filter_def
        has_non_feed_filter_def has_downloaded_filter_def)
qed

theorem toggle_filter_absorbing_xor_witness:
  "toggle_filter 5 FILTER_VIEW_ALL = FILTER_VIEW_ALL
   \<and> FILTER_DOWNLOADED \<noteq> FILTER_VIEW_ALL
   \<and> toggle_filter 5 FILTER_DOWNLOADED = 1
   \<and> toggle_filter (toggle_filter 5 FILTER_DOWNLOADED) FILTER_DOWNLOADED = 5"
proof -
  have ne: "FILTER_DOWNLOADED \<noteq> FILTER_VIEW_ALL"
    by (simp add: FILTER_DOWNLOADED_def FILTER_VIEW_ALL_def)
  note t = toggle_filter_absorbing_xor [of 5 FILTER_DOWNLOADED]
  have a: "toggle_filter 5 FILTER_VIEW_ALL = FILTER_VIEW_ALL"
    using t by blast
  have b: "toggle_filter 5 FILTER_DOWNLOADED = 5 XOR FILTER_DOWNLOADED"
    using t ne by blast
  have c: "toggle_filter (toggle_filter 5 FILTER_DOWNLOADED) FILTER_DOWNLOADED = 5"
    using t ne by blast
  have x: "(5::int) XOR FILTER_DOWNLOADED = 1"
    by (simp add: FILTER_DOWNLOADED_def)
  show ?thesis
    using a b c x ne by simp
qed

section \<open>The rating hit test\<close>

lemma int_div_less_of_less_mult:
  fixes t c p :: int
  assumes "t < c * p" and "0 < p"
  shows "t div p < c"
proof (rule ccontr)
  assume "\<not> t div p < c"
  then have "c \<le> t div p" by simp
  then have "c * p \<le> (t div p) * p"
    using assms(2) by (simp add: mult_right_mono)
  also have "\<dots> \<le> t"
    using assms(2)
    by (metis mult.commute mult_div_mod_eq add.commute le_add_same_cancel2 pos_mod_sign)
  finally show False using assms(1) by simp
qed

text \<open>
  Claim C5, as the code has it.  The hit test first moves \<open>x\<close> right by half the
  spacing, \<open>x' = x + spacing div 2\<close>; when \<open>0 \<le> x' < (icon_width + spacing) * 5\<close> the
  star index is \<open>x' div (icon_width + spacing) + 1\<close>, and there is no index otherwise.
  For a positive padded icon width the index is between 1 and 5.  With the renderer's
  icon width 9 and spacing 2: \<open>x = 0\<close> and \<open>x = 9\<close> give star 1, \<open>x = 10\<close> and \<open>x = 11\<close>
  give star 2, and \<open>x = 55\<close> gives none.
\<close>

theorem icon_index_at_x_translated:
  "icon_index_at_x self x =
     (if 0 \<le> x + ICON_HORIZONTAL_SPACING div 2
         \<and> x + ICON_HORIZONTAL_SPACING div 2 < (icon_width self + ICON_HORIZONTAL_SPACING) * ICON_COUNT
      then Some ((x + ICON_HORIZONTAL_SPACING div 2) div (icon_width self + ICON_HORIZONTAL_SPACING) + 1)
      else None)
   \<and> (\<forall>i. 0 < icon_width self + ICON_HORIZONTAL_SPACING \<longrightarrow> icon_index_at_x self x = Some i
          \<longrightarrow> 1 \<le> i \<and> i \<le> ICON_COUNT)
   \<and> icon_index_at_x RatingRenderer_init 0 = Some 1
   \<and> icon_index_at_x RatingRenderer_init 9 = Some 1
   \<and> icon_index_at_x RatingRenderer_init 10 = Some 2
   \<and> icon_index_at_x RatingRenderer_init 11 = Some 2
   \<and> icon_index_at_x RatingRenderer_init 55 = None"
proof -
  have formula: "icon_index_at_x self x =
     (if 0 \<le> x + ICON_HORIZONTAL_SPACING div 2
         \<and> x + ICON_HORIZONTAL_SPACING div 2 < (icon_width self + ICON_HORIZONTAL_SPACING) * ICON_COUNT
      then Some ((x + ICON_HORIZONTAL_SPACING div 2) div (icon_width self + ICON_HORIZONTAL_SPACING) + 1)
      else None)"
    by (simp add: icon_index_at_x_def Let_def)
  have range: "1 \<le> i \<and> i \<le> ICON_COUNT"
    if pos: "0 < icon_width self + ICON_HORIZONTAL_SPACING"
      and some: "icon_index_at_x self x = Some i" for i
  proof -
    define p where "p = icon_width self + ICON_HORIZONTAL_SPACING"
    define t where "t = x + ICON_HORIZONTAL_SPACING div 2"
    have p: "0 < p" using pos by (simp add: p_def)
    from some have t0: "0 \<le> t" and t1: "t < p * ICON_COUNT" and i: "i = t div p + 1"
      by (auto simp: icon_index_at_x_def Let_def p_def t_def split: if_splits)
    have "0 \<le> t div p" using t0 p by (simp add: pos_imp_zdiv_nonneg_iff)
    moreover have "t div p < ICON_COUNT"
      using t1 p by (simp add: int_div_less_of_less_mult mult.commute)
    ultimately show ?thesis using i by simp
  qed
  have c: "icon_index_at_x RatingRenderer_init 0 = Some 1"
    "icon_index_at_x RatingRenderer_init 9 = Some 1"
    "icon_index_at_x RatingRenderer_init 10 = Some 2"
    "icon_index_at_x RatingRenderer_init 11 = Some 2"
    "icon_index_at_x RatingRenderer_init 55 = None"
    by (simp_all add: icon_index_at_x_def RatingRenderer_init_def
        ICON_HORIZONTAL_SPACING_def ICON_COUNT_def)
  show ?thesis using formula range c by blast
qed

theorem icon_index_at_x_translated_witness:
  "icon_index_at_x RatingRenderer_init 32 = Some 4 \<and> (1::int) \<le> 4 \<and> 4 \<le> ICON_COUNT"
proof -
  have pos: "0 < icon_width RatingRenderer_init + ICON_HORIZONTAL_SPACING"
    by (simp add: RatingRenderer_init_def ICON_HORIZONTAL_SPACING_def)
  have v: "icon_index_at_x RatingRenderer_init 32 = Some 4"
    using icon_index_at_x_translated [of RatingRenderer_init 32]
    by (simp add: RatingRenderer_init_def ICON_HORIZONTAL_SPACING_def ICON_COUNT_def)
  from icon_index_at_x_translated [of RatingRenderer_init 32] pos v
  have "1 \<le> (4::int) \<and> 4 \<le> ICON_COUNT" by blast
  with v show ?thesis by simp
qed

text \<open>
  The claim as it was stated puts \<open>x = 10\<close> on star 1; the hit test puts it on star 2.
\<close>

theorem icon_index_at_x_ten_counterexample:
  "icon_index_at_x RatingRenderer_init 10 = Some 2
   \<and> icon_index_at_x RatingRenderer_init 10 \<noteq> Some 1"
  by (simp add: icon_index_at_x_def RatingRenderer_init_def
      ICON_HORIZONTAL_SPACING_def ICON_COUNT_def)

section \<open>Download mode and throbber mode\<close>

text \<open>
  Claim C2.  After \<open>calc_download_mode\<close> the flag \<open>download_mode\<close> is true exactly when
  the item's state is \<open>downloading\<close> or \<open>paused\<close>.  For an item that has download
  information the call raises nothing, and whenever \<open>download_mode\<close> is true,
  \<open>throbber_mode\<close> is true exactly when \<open>downloaded_size\<close> is greater than 0 and
  \<open>total_size\<close> is negative.
\<close>

theorem calc_download_mode_flags:
  "download_mode (snd (calc_download_mode self))
     = Some (state (info self) = ''downloading'' \<or> state (info self) = ''paused'')
   \<and> (download_info (info self) = Some dl_info \<longrightarrow>
        fst (calc_download_mode self) = Inr ()
        \<and> (download_mode (snd (calc_download_mode self)) = Some True \<longrightarrow>
             throbber_mode (snd (calc_download_mode self))
               = Some (0 < downloaded_size dl_info \<and> total_size dl_info < 0)))"
  by (auto simp: calc_download_mode_def Let_def split: option.splits)

theorem calc_download_mode_flags_witness:
  "download_info (info (example_renderer example_info)) = Some example_download
   \<and> fst (calc_download_mode (example_renderer example_info)) = Inr ()
   \<and> download_mode (snd (calc_download_mode (example_renderer example_info))) = Some True
   \<and> throbber_mode (snd (calc_download_mode (example_renderer example_info))) = Some True"
proof -
  have i: "info (example_renderer example_info) = example_info"
    by (simp add: example_renderer_def blank_renderer_def)
  have d: "download_info example_info = Some example_download"
    and s: "state example_info = ''downloading''"
    by (simp_all add: example_info_def)
  have z: "0 < downloaded_size example_download \<and> total_size example_download < 0"
    by (simp add: example_download_def)
  show ?thesis
    using calc_download_mode_flags [of "example_renderer example_info" example_download] i d s z
    by simp
qed

section \<open>The progress bar of an item of size 0\<close>

text \<open>
  Claim C4, as the code has it.  For an item whose size is 0, \<open>draw_progress_bar\<close> draws
  nothing when \<open>throbber_mode\<close> is false.  When \<open>throbber_mode\<close> is true it is
  \<open>draw_progress_throbber\<close>, whatever the size: with at least one throbber stage it draws
  one of the stages and emits \<open>throbber-drawn\<close>.
\<close>

theorem draw_progress_bar_size_zero:
  "item_size (info self) = 0 \<longrightarrow>
     (throbber_mode self = Some False \<longrightarrow>
        draw_progress_bar scaled self x y w h = (Inr (), []))
     \<and> (throbber_mode self = Some True \<longrightarrow>
        draw_progress_bar scaled self x y w h = draw_progress_throbber self x y w h)
     \<and> (throbber_mode self = Some True \<and> progress_throbber_surfaces self \<noteq> [] \<longrightarrow>
        (\<exists>surface. surface \<in> set (progress_throbber_surfaces self)
           \<and> draw_progress_bar scaled self x y w h
               = (Inr (), [ThreeImageDraw surface x y w, SignalEmit ''throbber-drawn'' (info self)])))"
proof -
  have idx: "progress_throbber_surfaces self ! nat (c mod int (length (progress_throbber_surfaces self)))
               \<in> set (progress_throbber_surfaces self)"
    if "progress_throbber_surfaces self \<noteq> []" for c
  proof -
    have "0 < int (length (progress_throbber_surfaces self))" using that by simp
    then have "nat (c mod int (length (progress_throbber_surfaces self)))
                 < length (progress_throbber_surfaces self)"
      by (metis nat_less_iff pos_mod_bound pos_mod_sign)
    then show ?thesis by simp
  qed
  have third: "\<exists>surface. surface \<in> set (progress_throbber_surfaces self)
           \<and> draw_progress_bar scaled self x y w h
               = (Inr (), [ThreeImageDraw surface x y w, SignalEmit ''throbber-drawn'' (info self)])"
    if t: "throbber_mode self = Some True" and ne: "progress_throbber_surfaces self \<noteq> []"
  proof -
    define c where "c = (case attrs self ''throbber-value'' of None \<Rightarrow> 0 | Some v \<Rightarrow> v)"
    let ?surface = "progress_throbber_surfaces self
                      ! nat (c mod int (length (progress_throbber_surfaces self)))"
    have "draw_progress_bar scaled self x y w h
            = (Inr (), [ThreeImageDraw ?surface x y w, SignalEmit ''throbber-drawn'' (info self)])"
      using t ne by (simp add: draw_progress_bar_def draw_progress_throbber_def Let_def c_def)
    with idx [OF ne, of c] show ?thesis by blast
  qed
  have first: "draw_progress_bar scaled self x y w h = (Inr (), [])"
    if "item_size (info self) = 0" and "throbber_mode self = Some False"
    using that by (simp add: draw_progress_bar_def)
  have second: "draw_progress_bar scaled self x y w h = draw_progress_throbber self x y w h"
    if "throbber_mode self = Some True"
    using that by (simp add: draw_progress_bar_def)
  show ?thesis
    using first second third by blast
qed

theorem draw_progress_bar_size_zero_witness:
  "item_size (info ((example_renderer example_info)\<lparr>throbber_mode := Some False\<rparr>)) = 0
   \<and> draw_progress_bar (\<lambda>w d s. 0)
       ((example_renderer example_info)\<lparr>throbber_mode := Some False\<rparr>) 0 0 100 22
     = (Inr (), [])
   \<and> item_size (info ((example_renderer example_info)\<lparr>throbber_mode := Some True\<rparr>)) = 0
   \<and> progress_throbber_surfaces ((example_renderer example_info)\<lparr>throbber_mode := Some True\<rparr>)
       \<noteq> []
   \<and> draw_progress_bar (\<lambda>w d s. 0)
       ((example_renderer example_info)\<lparr>throbber_mode := Some True\<rparr>) 0 0 100 22
     = draw_progress_throbber
         ((example_renderer example_info)\<lparr>throbber_mode := Some True\<rparr>) 0 0 100 22
   \<and> snd (draw_progress_bar (\<lambda>w d s. 0)
       ((example_renderer example_info)\<lparr>throbber_mode := Some True\<rparr>) 0 0 100 22) \<noteq> []"
proof -
  let ?off = "(example_renderer example_info)\<lparr>throbber_mode := Some False\<rparr>"
  let ?on = "(example_renderer example_info)\<lparr>throbber_mode := Some True\<rparr>"
  have z: "item_size (info ?off) = 0" "item_size (info ?on) = 0"
    by (simp_all add: example_renderer_def blank_renderer_def example_info_def)
  have t: "throbber_mode ?off = Some False" "throbber_mode ?on = Some True"
    by simp_all
  have ne: "progress_throbber_surfaces ?on \<noteq> []"
    by (simp add: example_renderer_def example_stages_def)
  from draw_progress_bar_size_zero [of ?off "\<lambda>w d s. 0" 0 0 100 22] z t
  have a: "draw_progress_bar (\<lambda>w d s. 0) ?off 0 0 100 22 = (Inr (), [])"
    by blast
  from draw_progress_bar_size_zero [of ?on "\<lambda>w d s. 0" 0 0 100 22] z t ne
  have b: "draw_progress_bar (\<lambda>w d s. 0) ?on 0 0 100 22
             = draw_progress_throbber ?on 0 0 100 22"
    and c: "\<exists>surface. surface \<in> set (progress_throbber_surfaces ?on)
           \<and> draw_progress_bar (\<lambda>w d s. 0) ?on 0 0 100 22
               = (Inr (), [ThreeImageDraw surface 0 0 100,
                           SignalEmit ''throbber-drawn'' (info ?on)])"
    by blast+
  from c have d: "snd (draw_progress_bar (\<lambda>w d s. 0) ?on 0 0 100 22) \<noteq> []"
    by auto
  show ?thesis
    using z ne a b d by simp
qed

text \<open>
  The claim as it was stated has nothing drawn for size 0 also in throbber mode; the
  item whose download has started with the total size unknown has size 0, is in
  throbber mode after the mode computation, and gets the throbber drawn.
\<close>

theorem draw_progress_bar_throbber_counterexample:
  "item_size (info (snd (calc_download_mode (example_renderer example_info)))) = 0
   \<and> throbber_mode (snd (calc_download_mode (example_renderer example_info))) = Some True
   \<and> draw_progress_bar (\<lambda>w d s. 0)
       (snd (calc_download_mode (example_renderer example_info))) 0 0 100 22
     = (Inr (),
        [ThreeImageDraw (example_surface [], example_surface [], example_surface []) 0 0 100,
         SignalEmit ''throbber-drawn'' example_info])"
  by (simp add: calc_download_mode_def Let_def example_renderer_def blank_renderer_def
      example_info_def example_download_def example_stages_def draw_progress_bar_def
      draw_progress_throbber_def)

section \<open>What setup_images loads\<close>

lemma fold_upd_lookup:
  "fold (\<lambda>n m. m(n \<mapsto> f n)) xs m0 k = (if k \<in> set xs then Some (f k) else m0 k)"
  by (induction xs arbitrary: m0) auto

lemma load_images_lookup:
  "image_name \<in> set all_images \<Longrightarrow>
   load_images get_surface image_name = Some (get_surface (''item-renderer-'' @ image_name @ ''.png''))"
proof -
  assume m: "image_name \<in> set all_images"
  have "''download-arrow'' \<notin> set all_images"
    by (simp add: all_images_def)
  with m have "image_name \<noteq> ''download-arrow''" by blast
  with m show ?thesis
    by (simp add: load_images_def fold_upd_lookup)
qed

lemma throbber_names:
  "''progress-throbber-'' @ str_nat (i + 1) @ ''-left'' \<in> set all_images"
  "''progress-throbber-'' @ str_nat (i + 1) @ ''-middle'' \<in> set all_images"
  "''progress-throbber-'' @ str_nat (i + 1) @ ''-right'' \<in> set all_images"
  if "i < 5"
proof -
  from that have "i = 0 \<or> i = 1 \<or> i = 2 \<or> i = 3 \<or> i = 4" by arith
  then show "''progress-throbber-'' @ str_nat (i + 1) @ ''-left'' \<in> set all_images"
    "''progress-throbber-'' @ str_nat (i + 1) @ ''-middle'' \<in> set all_images"
    "''progress-throbber-'' @ str_nat (i + 1) @ ''-right'' \<in> set all_images"
    by (auto simp: all_images_def digit_char_def str_nat.simps)
qed

lemma throbber_stages_loaded:
  "\<forall>i \<in> set is. i < 5 \<Longrightarrow>
   \<exists>surfaces. throbber_stages (load_images get_surface) is = Inr surfaces
              \<and> length surfaces = length is"
proof (induction "is")
  case Nil
  then show ?case by simp
next
  case (Cons i "is")
  then obtain rest where r: "throbber_stages (load_images get_surface) is = Inr rest"
      "length rest = length is"
    by auto
  from Cons.prems have i: "i < 5" by simp
  note n = throbber_names [OF i]
  show ?case
    using r load_images_lookup [OF n(1), of get_surface]
      load_images_lookup [OF n(2), of get_surface]
      load_images_lookup [OF n(3), of get_surface]
    by simp
qed

lemma setup_images_loaded:
  "\<exists>self'. setup_images get_surface self = Inr self' \<and> images_loaded self'
           \<and> info self' = info self"
proof -
  obtain surfaces where s: "throbber_stages (load_images get_surface) [0..<5] = Inr surfaces"
      "length surfaces = 5"
    using throbber_stages_loaded [of "[0..<5]" get_surface] by auto
  then show ?thesis
    by (simp add: setup_images_def images_loaded_def load_images_lookup)
qed

lemma example_renderer_loaded: "images_loaded (example_renderer i)"
  by (simp add: images_loaded_def example_renderer_def load_images_lookup example_stages_def)

section \<open>Emblem precedence\<close>

lemma calc_emblem_parts_drm:
  "has_drm (info self) \<Longrightarrow>
   calc_emblem_parts app self =
     (Inr (), self\<lparr>text' := Some ''DRM locked'', image' := None,
                   margin_right := EMBLEM_TEXT_PAD_END, text_bold := True,
                   text_color := Some DRM_TEXT_COLOR, text_shadow := Some DRM_TEXT_SHADOW,
                   emblem := Some ''drm''\<rparr>)"
  by (simp add: calc_emblem_parts_def Let_def)

lemma calc_emblem_parts_shown:
  assumes "images self ''status-icon-alert'' \<noteq> None"
  shows "fst (calc_emblem_parts app self) = Inr ()
      \<and> shown_emblem (snd (calc_emblem_parts app self))
          = map_option (\<lambda>row. (Some (spec_row_text app (info self) row), Some (spec_row_key row)))
              (spec_first_row app (is_podcast self) (info self))"
proof (cases "has_drm (info self)")
  case True
  then show ?thesis
    by (simp add: calc_emblem_parts_drm shown_emblem_def spec_first_row_def spec_emblem_rows_def)
next
  case False
  note nodrm = this
  show ?thesis
  proof (cases "failed_download (info self)")
    case (Some dl_info)
    then have dl: "download_info (info self) = Some dl_info" "dl_state dl_info = ''failed''"
      by (auto simp: failed_download_def split: option.splits if_splits)
    from assms obtain surface where "images self ''status-icon-alert'' = Some surface" by auto
    then show ?thesis
      using nodrm Some dl
      by (simp add: calc_emblem_parts_def Let_def shown_emblem_def spec_first_row_def
          spec_emblem_rows_def ERROR_TEXT_def)
  next
    case None
    then have nf: "(case download_info (info self) of None \<Rightarrow> False
                    | Some dl_info \<Rightarrow> dl_state dl_info = ''failed'') = False"
      by (auto simp: failed_download_def split: option.splits if_splits)
    show ?thesis
      using nodrm None nf
      by (simp add: calc_emblem_parts_def Let_def shown_emblem_def spec_first_row_def
          spec_emblem_rows_def should_resume_item_def QUEUED_TEXT_def
          CURRENTLY_PLAYING_TEXT_def UNPLAYED_TEXT_def NEWLY_AVAILABLE_TEXT_def)
  qed
qed

text \<open>
  Claim C1.  The emblem computed for an item is the one of the first row, in the order
  DRM-locked, download-failed, pending-auto-download, downloaded-and-currently-playing,
  downloaded-unplayed, resume-eligible, newly-available, whose condition the item
  satisfies, and there is no emblem when it satisfies none: the chain of the code gives
  the text and the emblem key of the first matching row of the specification's table
  (the failed row reads the status icon, which \<open>setup_images\<close> loads).  In particular
  an item that is DRM-locked and also downloaded, playable and unwatched gets the text
  \<open>DRM locked\<close>, the DRM colours and the key \<open>drm\<close>, not the unplayed emblem.
\<close>

theorem calc_emblem_parts_first_match:
  "(images self ''status-icon-alert'' \<noteq> None \<longrightarrow>
      fst (calc_emblem_parts app self) = Inr ()
      \<and> shown_emblem (snd (calc_emblem_parts app self))
          = map_option (\<lambda>row. (Some (spec_row_text app (info self) row), Some (spec_row_key row)))
              (spec_first_row app (is_podcast self) (info self)))
   \<and> (has_drm (info self) \<and> downloaded (info self) \<and> \<not> video_watched (info self)
        \<and> is_playable (info self) \<longrightarrow>
        fst (calc_emblem_parts app self) = Inr ()
        \<and> text' (snd (calc_emblem_parts app self)) = Some ''DRM locked''
        \<and> text_color (snd (calc_emblem_parts app self)) = Some DRM_TEXT_COLOR
        \<and> text_shadow (snd (calc_emblem_parts app self)) = Some DRM_TEXT_SHADOW
        \<and> emblem (snd (calc_emblem_parts app self)) = Some ''drm''
        \<and> text' (snd (calc_emblem_parts app self)) \<noteq> Some UNPLAYED_TEXT
        \<and> emblem (snd (calc_emblem_parts app self)) \<noteq> Some ''unplayed'')"
  using calc_emblem_parts_shown [of self app]
  by (auto simp: calc_emblem_parts_drm UNPLAYED_TEXT_def)

theorem calc_emblem_parts_first_match_witness:
  "images (example_drawer drm_unplayed_info) ''status-icon-alert'' \<noteq> None
   \<and> has_drm drm_unplayed_info \<and> downloaded drm_unplayed_info
   \<and> \<not> video_watched drm_unplayed_info \<and> is_playable drm_unplayed_info
   \<and> spec_first_row example_app False drm_unplayed_info = Some Row_drm_locked
   \<and> fst (calc_emblem_parts example_app (example_drawer drm_unplayed_info)) = Inr ()
   \<and> shown_emblem (snd (calc_emblem_parts example_app (example_drawer drm_unplayed_info)))
       = Some (Some ''DRM locked'', Some ''drm'')
   \<and> text_color (snd (calc_emblem_parts example_app (example_drawer drm_unplayed_info)))
       = Some DRM_TEXT_COLOR"
proof -
  have n: "''status-icon-alert'' \<in> set all_images"
    by (simp add: all_images_def)
  have im: "images (example_drawer drm_unplayed_info) ''status-icon-alert'' \<noteq> None"
    using load_images_lookup [OF n, of example_surface] by (simp add: example_drawer_def)
  have i: "info (example_drawer drm_unplayed_info) = drm_unplayed_info"
    "is_podcast (example_drawer drm_unplayed_info) = False"
    by (simp_all add: example_drawer_def)
  have f: "has_drm drm_unplayed_info" "downloaded drm_unplayed_info"
    "\<not> video_watched drm_unplayed_info" "is_playable drm_unplayed_info"
    by (simp_all add: drm_unplayed_info_def)
  have r: "spec_first_row example_app False drm_unplayed_info = Some Row_drm_locked"
    using f by (simp add: spec_first_row_def spec_emblem_rows_def)
  show ?thesis
    using calc_emblem_parts_first_match [of "example_drawer drm_unplayed_info" example_app]
      im i f r
    by simp
qed

section \<open>The mode computation and the progress bar\<close>

lemma calc_download_mode_raises:
  "fst (calc_download_mode self) = Inl AttributeError \<longleftrightarrow>
     (state (info self) = ''downloading'' \<or> state (info self) = ''paused'')
     \<and> download_info (info self) = None"
  by (simp add: calc_download_mode_def Let_def split: option.splits)

lemma calc_download_mode_ok:
  "fst (calc_download_mode self) = Inr () \<longleftrightarrow>
     \<not> ((state (info self) = ''downloading'' \<or> state (info self) = ''paused'')
        \<and> download_info (info self) = None)"
  by (simp add: calc_download_mode_def Let_def split: option.splits)

lemma draw_progress_bar_after_mode:
  assumes loaded: "images_loaded self"
    and ok: "fst (calc_download_mode self) = Inr ()"
    and mode: "download_mode (snd (calc_download_mode self)) = Some True"
  shows "fst (draw_progress_bar scaled (snd (calc_download_mode self)) x y w h) = Inr ()"
proof -
  from ok mode obtain dl_info where dl: "download_info (info self) = Some dl_info"
    by (auto simp: calc_download_mode_def Let_def split: option.splits if_splits)
  define self' where "self' = snd (calc_download_mode self)"
  have t: "throbber_mode self' = Some (0 < downloaded_size dl_info \<and> total_size dl_info < 0)"
    and i: "info self' = info self" and im: "images self' = images self"
    and su: "progress_throbber_surfaces self' = progress_throbber_surfaces self"
    and at: "attrs self' = attrs self"
    using dl mode by (auto simp: self'_def calc_download_mode_def Let_def split: if_splits)
  have names: "''progress-left-cap'' \<in> set all_images" "''progress-middle'' \<in> set all_images"
    "''progress-right-cap'' \<in> set all_images"
    by (simp_all add: all_images_def)
  from loaded names obtain l m r where
    imgs: "images self ''progress-left-cap'' = Some l" "images self ''progress-middle'' = Some m"
      "images self ''progress-right-cap'' = Some r"
    unfolding images_loaded_def by blast
  from loaded have len: "length (progress_throbber_surfaces self) = 5"
    by (simp add: images_loaded_def)
  have "fst (draw_progress_bar scaled self' x y w h) = Inr ()"
  proof (cases "0 < downloaded_size dl_info \<and> total_size dl_info < 0")
    case True
    with t have "throbber_mode self' = Some True" by simp
    then show ?thesis
      using su len by (simp add: draw_progress_bar_def draw_progress_throbber_def Let_def)
  next
    case False
    with t have "throbber_mode self' = Some False" by simp
    then show ?thesis
      using i im dl imgs by (simp add: draw_progress_bar_def Let_def)
  qed
  then show ?thesis by (simp add: self'_def)
qed

section \<open>The state store\<close>

lemma get_display_present:
  "displays s (display_type, unicode display_id) = Some d \<Longrightarrow>
   get_display display_type display_id s = (Inr d, s)"
  by (simp add: get_display.simps displays_at_def)

lemma save_display_state_present:
  "displays s (display_type, unicode display_id) = Some d \<Longrightarrow>
   save_display_state display_type display_id s =
     (Inr (), s\<lparr>sent := sent s @ [SaveDisplayState d]\<rparr>)"
  by (simp add: save_display_state.simps get_display_present)

lemma get_display_absent:
  "displays s (display_type, unicode display_id) = None \<Longrightarrow>
   get_display display_type display_id s =
     (Inr (DisplayInfo_new (display_type, unicode display_id)), created display_type display_id s)"
  by (simp add: get_display.simps [of display_type display_id s] Let_def created_def
      save_display_state_present displays_at_def)

lemma created_simps:
  "sent (created display_type display_id s)
     = sent s @ [SaveDisplayState (DisplayInfo_new (display_type, unicode display_id))]"
  "displays (created display_type display_id s)
     = (displays s)((display_type, unicode display_id) \<mapsto>
          DisplayInfo_new (display_type, unicode display_id))"
  "views (created display_type display_id s) = views s"
  "list_heap (created display_type display_id s) = list_heap s"
  "dict_heap (created display_type display_id s) = dict_heap s"
  "next_dict (created display_type display_id s) = next_dict s"
  by (simp_all add: created_def)

lemma created_present:
  "displays (created display_type display_id s) (display_type, unicode display_id)
     = Some (DisplayInfo_new (display_type, unicode display_id))"
  by (simp add: created_def)

lemma get_display_created:
  "get_display display_type display_id (created display_type display_id s) =
     (Inr (DisplayInfo_new (display_type, unicode display_id)), created display_type display_id s)"
  by (simp add: get_display_present created_present)

lemma get_columns_enabled_absent:
  "displays s (display_type, unicode display_id) = None \<Longrightarrow>
   get_columns_enabled display_type display_id LIST_VIEW s =
     get_columns_enabled display_type display_id LIST_VIEW (created display_type display_id s)"
  by (simp add: get_columns_enabled_def get_display_absent get_display_created is_list_view_def)

lemma get_columns_enabled_present:
  "displays s (display_type, unicode display_id) = Some d \<Longrightarrow>
   get_columns_enabled display_type display_id LIST_VIEW s =
     (case list_view_columns d of
        Some a \<Rightarrow> (Inr a, s)
      | None \<Rightarrow> (case DEFAULT_COLUMNS display_type of
                   None \<Rightarrow> (Inl KeyError, s)
                 | Some a \<Rightarrow> (Inr a, s)))"
  by (simp add: get_columns_enabled_def get_display_present is_list_view_def)

lemma set_columns_enabled_present:
  "displays s (display_type, unicode display_id) = Some d \<Longrightarrow>
   set_columns_enabled display_type display_id LIST_VIEW a s =
     (Inr (), s\<lparr>displays := (displays s)((display_type, unicode display_id) \<mapsto>
                                d\<lparr>list_view_columns := Some a\<rparr>),
                 sent := sent s @ [SaveDisplayState (d\<lparr>list_view_columns := Some a\<rparr>)]\<rparr>)"
  by (simp add: set_columns_enabled_def get_display_present is_list_view_def put_display_def
      save_display_state_present)

lemma toggle_column_absent:
  "displays s (display_type, unicode display_id) = None \<Longrightarrow>
   toggle_column display_type display_id LIST_VIEW column s =
     toggle_column display_type display_id LIST_VIEW column (created display_type display_id s)"
  by (simp add: toggle_column_def get_display_absent get_display_created is_list_view_def)

lemma toggle_column_present:
  assumes d: "displays s (display_type, unicode display_id) = Some d"
    and a: "get_columns_enabled display_type display_id LIST_VIEW s = (Inr a, s)"
  shows "toggle_column display_type display_id LIST_VIEW column s =
     (Inr (), s\<lparr>displays := (displays s)((display_type, unicode display_id) \<mapsto>
                                d\<lparr>list_view_columns := Some a\<rparr>),
                 list_heap := (list_heap s)(a := toggled column (list_heap s a)),
                 sent := sent s @ [SaveDisplayState (d\<lparr>list_view_columns := Some a\<rparr>)]\<rparr>)"
  using d a
  by (simp add: toggle_column_def get_display_present is_list_view_def toggled_def
      set_columns_enabled_present)

lemma get_columns_enabled_unset:
  assumes "DEFAULT_COLUMNS display_type = Some a"
    and "columns_unset s (display_type, unicode display_id)"
  shows "fst (get_columns_enabled display_type display_id LIST_VIEW s) = Inr a
    \<and> list_heap (snd (get_columns_enabled display_type display_id LIST_VIEW s)) = list_heap s"
proof (cases "displays s (display_type, unicode display_id)")
  case None
  have "get_columns_enabled display_type display_id LIST_VIEW (created display_type display_id s)
          = (Inr a, created display_type display_id s)"
    using assms(1)
    by (simp add: get_columns_enabled_present [OF created_present] DisplayInfo_new_def)
  with None show ?thesis
    by (simp add: get_columns_enabled_absent created_def)
next
  case (Some d)
  then show ?thesis
    using assms by (simp add: get_columns_enabled_present columns_unset_def)
qed

lemma toggle_column_unset:
  assumes df: "DEFAULT_COLUMNS display_type = Some a"
    and un: "columns_unset s (display_type, unicode display_id)"
  shows "fst (toggle_column display_type display_id LIST_VIEW column s) = Inr ()
    \<and> list_heap (snd (toggle_column display_type display_id LIST_VIEW column s))
        = (list_heap s)(a := toggled column (list_heap s a))
    \<and> (\<forall>k. k \<noteq> (display_type, unicode display_id) \<longrightarrow>
          displays (snd (toggle_column display_type display_id LIST_VIEW column s)) k = displays s k)
    \<and> (\<exists>d. displays (snd (toggle_column display_type display_id LIST_VIEW column s))
              (display_type, unicode display_id) = Some d \<and> list_view_columns d = Some a)"
proof (cases "displays s (display_type, unicode display_id)")
  case None
  let ?s1 = "created display_type display_id s"
  have g: "get_columns_enabled display_type display_id LIST_VIEW ?s1 = (Inr a, ?s1)"
    using df by (simp add: get_columns_enabled_present [OF created_present] DisplayInfo_new_def)
  show ?thesis
    using None toggle_column_present [OF created_present g]
    by (simp add: toggle_column_absent created_def)
next
  case (Some d)
  then have g: "get_columns_enabled display_type display_id LIST_VIEW s = (Inr a, s)"
    using df un by (simp add: get_columns_enabled_present columns_unset_def)
  show ?thesis
    using Some toggle_column_present [OF Some g] by simp
qed


text \<open>
  Claim C10.  For a display whose list-view columns were never stored (it is absent, or
  its \<open>list_view_columns\<close> is unset), \<open>get_columns_enabled\<close> returns the address of the
  default list of its display type: the shared object, not a copy.  \<open>toggle_column\<close> on
  that display then changes this object in place, and from then on every display whose
  columns are unset and whose display type has this list as its default (the same
  display type, or one bound to the same list) gets the toggled list from
  \<open>get_columns_enabled\<close>.
\<close>

theorem default_columns_shared:
  "DEFAULT_COLUMNS display_type = Some a
   \<and> columns_unset s (display_type, unicode display_id) \<longrightarrow>
     fst (get_columns_enabled display_type display_id LIST_VIEW s) = Inr a
     \<and> fst (toggle_column display_type display_id LIST_VIEW column s) = Inr ()
     \<and> list_heap (snd (toggle_column display_type display_id LIST_VIEW column s)) a
         = toggled column (list_heap s a)
     \<and> (\<forall>display_type' display_id'.
           DEFAULT_COLUMNS display_type' = Some a
           \<and> columns_unset (snd (toggle_column display_type display_id LIST_VIEW column s))
                (display_type', unicode display_id') \<longrightarrow>
             fst (get_columns_enabled display_type' display_id' LIST_VIEW
                    (snd (toggle_column display_type display_id LIST_VIEW column s))) = Inr a
             \<and> list_heap (snd (get_columns_enabled display_type' display_id' LIST_VIEW
                    (snd (toggle_column display_type display_id LIST_VIEW column s)))) a
                 = toggled column (list_heap s a))"
proof (intro impI, elim conjE)
  assume df: "DEFAULT_COLUMNS display_type = Some a"
    and un: "columns_unset s (display_type, unicode display_id)"
  let ?s' = "snd (toggle_column display_type display_id LIST_VIEW column s)"
  note t = toggle_column_unset [OF df un, of column]
  have heap: "list_heap ?s' a = toggled column (list_heap s a)"
    using t by simp
  have others: "fst (get_columns_enabled display_type' display_id' LIST_VIEW ?s') = Inr a
      \<and> list_heap (snd (get_columns_enabled display_type' display_id' LIST_VIEW ?s')) a
          = toggled column (list_heap s a)"
    if "DEFAULT_COLUMNS display_type' = Some a"
      and "columns_unset ?s' (display_type', unicode display_id')"
    for display_type' display_id'
    using get_columns_enabled_unset [OF that] heap by simp
  show "fst (get_columns_enabled display_type display_id LIST_VIEW s) = Inr a
     \<and> fst (toggle_column display_type display_id LIST_VIEW column s) = Inr ()
     \<and> list_heap ?s' a = toggled column (list_heap s a)
     \<and> (\<forall>display_type' display_id'.
           DEFAULT_COLUMNS display_type' = Some a
           \<and> columns_unset ?s' (display_type', unicode display_id') \<longrightarrow>
             fst (get_columns_enabled display_type' display_id' LIST_VIEW ?s') = Inr a
             \<and> list_heap (snd (get_columns_enabled display_type' display_id' LIST_VIEW ?s')) a
                 = toggled column (list_heap s a))"
    using get_columns_enabled_unset [OF df un] t heap others by blast
qed

lemma str_int_nine: "str_int 9 = ''9''"
  by (simp add: str_int_def str_nat.simps digit_char_def)

theorem default_columns_shared_witness:
  "DEFAULT_COLUMNS ''videos'' = Some 0
   \<and> DEFAULT_COLUMNS ''sharing'' = Some 0
   \<and> columns_unset store_init (''videos'', ''1'')
   \<and> fst (get_columns_enabled ''videos'' (IdStr ''1'') LIST_VIEW store_init) = Inr 0
   \<and> fst (get_columns_enabled ''sharing'' (IdInt 9) LIST_VIEW
            (snd (toggle_column ''videos'' (IdStr ''1'') LIST_VIEW ''rating'' store_init))) = Inr 0
   \<and> list_heap (snd (get_columns_enabled ''sharing'' (IdInt 9) LIST_VIEW
            (snd (toggle_column ''videos'' (IdStr ''1'') LIST_VIEW ''rating'' store_init)))) 0
       = [''state'', ''name'', ''length'', ''feed-name'', ''size'', ''rating'']"
proof -
  let ?s' = "snd (toggle_column ''videos'' (IdStr ''1'') LIST_VIEW ''rating'' store_init)"
  have v: "DEFAULT_COLUMNS ''videos'' = Some 0" and sh: "DEFAULT_COLUMNS ''sharing'' = Some 0"
    by (simp_all add: DEFAULT_COLUMNS_def)
  have un: "columns_unset store_init (''videos'', unicode (IdStr ''1''))"
    by (simp add: columns_unset_def store_init_def)
  have "displays ?s' (''sharing'', ''9'') = displays store_init (''sharing'', ''9'')"
    using toggle_column_unset [OF v un, of "''rating''"] by simp
  then have un': "columns_unset ?s' (''sharing'', unicode (IdInt 9))"
    by (simp add: columns_unset_def store_init_def str_int_nine)
  have tg: "toggled ''rating'' (list_heap store_init 0)
              = [''state'', ''name'', ''length'', ''feed-name'', ''size'', ''rating'']"
    by (simp add: toggled_def store_init_def class_lists_def)
  from default_columns_shared [of "''videos''" 0 store_init "IdStr ''1''" "''rating''"] v un
  have main: "fst (get_columns_enabled ''videos'' (IdStr ''1'') LIST_VIEW store_init) = Inr 0"
    and all: "\<forall>display_type' display_id'.
           DEFAULT_COLUMNS display_type' = Some 0
           \<and> columns_unset ?s' (display_type', unicode display_id') \<longrightarrow>
             fst (get_columns_enabled display_type' display_id' LIST_VIEW ?s') = Inr 0
             \<and> list_heap (snd (get_columns_enabled display_type' display_id' LIST_VIEW ?s')) 0
                 = toggled ''rating'' (list_heap store_init 0)"
    by blast+
  from all sh un' have "fst (get_columns_enabled ''sharing'' (IdInt 9) LIST_VIEW ?s') = Inr 0
      \<and> list_heap (snd (get_columns_enabled ''sharing'' (IdInt 9) LIST_VIEW ?s')) 0
          = toggled ''rating'' (list_heap store_init 0)"
    by blast
  with v sh un main tg show ?thesis by simp
qed


lemma first_access_getters:
  assumes "displays s (display_type, unicode display_id) = None"
  shows "get_selected_view display_type display_id s
           = get_selected_view display_type display_id (created display_type display_id s)"
    and "get_filters display_type display_id s
           = get_filters display_type display_id (created display_type display_id s)"
    and "get_column_widths display_type display_id LIST_VIEW s
           = get_column_widths display_type display_id LIST_VIEW (created display_type display_id s)"
  using assms
  by (simp_all add: get_selected_view_def get_filters_def get_column_widths_def
      get_display_absent get_display_created is_list_view_def)

lemma first_access_setters:
  assumes "displays s (display_type, unicode display_id) = None"
  shows "set_selected_view display_type display_id v s
           = set_selected_view display_type display_id v (created display_type display_id s)"
    and "toggle_filters display_type display_id f s
           = toggle_filters display_type display_id f (created display_type display_id s)"
    and "set_columns_enabled display_type display_id LIST_VIEW a s
           = set_columns_enabled display_type display_id LIST_VIEW a
               (created display_type display_id s)"
    and "update_column_widths display_type display_id LIST_VIEW w s
           = update_column_widths display_type display_id LIST_VIEW w
               (created display_type display_id s)"
  using assms
  by (simp_all add: set_selected_view_def toggle_filters_def set_columns_enabled_def
      update_column_widths_def first_access_getters
      get_display_absent get_display_created is_list_view_def)

lemma present_getters:
  assumes d: "displays s (display_type, unicode display_id) = Some d"
  shows "snd (get_selected_view display_type display_id s) = s"
    and "snd (get_filters display_type display_id s) = s"
    and "snd (get_columns_enabled display_type display_id LIST_VIEW s) = s"
    and "displays (snd (get_column_widths display_type display_id LIST_VIEW s)) = displays s"
    and "sent (snd (get_column_widths display_type display_id LIST_VIEW s)) = sent s"
  using d
  by (simp_all add: get_selected_view_def get_filters_def get_columns_enabled_present
      get_column_widths_def get_display_present is_list_view_def
      split: option.splits sum.splits)

lemma set_selected_view_present:
  "displays s (display_type, unicode display_id) = Some d \<Longrightarrow>
   set_selected_view display_type display_id v s =
     (Inr (), s\<lparr>displays := (displays s)((display_type, unicode display_id) \<mapsto>
                                d\<lparr>selected_view := Some v\<rparr>),
                 sent := sent s @ [SaveDisplayState (d\<lparr>selected_view := Some v\<rparr>)]\<rparr>)"
  by (simp add: set_selected_view_def get_display_present put_display_def
      save_display_state_present)

lemma toggle_filters_present:
  "displays s (display_type, unicode display_id) = Some d \<Longrightarrow>
   toggle_filters display_type display_id f s =
     (Inr (), s\<lparr>displays := (displays s)((display_type, unicode display_id) \<mapsto>
                    d\<lparr>active_filters := Some (toggle_filter
                         (case active_filters d of None \<Rightarrow> DEFAULT_DISPLAY_FILTERS
                          | Some filters \<Rightarrow> filters) f)\<rparr>),
                 sent := sent s @ [SaveDisplayState
                    (d\<lparr>active_filters := Some (toggle_filter
                         (case active_filters d of None \<Rightarrow> DEFAULT_DISPLAY_FILTERS
                          | Some filters \<Rightarrow> filters) f)\<rparr>)]\<rparr>)"
  by (simp add: toggle_filters_def get_filters_def get_display_present put_display_def
      save_display_state_present Let_def split: option.splits)


lemma get_view_present:
  "views s (display_type, unicode display_id, view_type) = Some v \<Longrightarrow>
   get_view display_type display_id view_type s = (Inr v, s)"
  by (simp add: get_view.simps views_at_def)

lemma save_view_state_present:
  "views s (display_type, unicode display_id, view_type) = Some v \<Longrightarrow>
   save_view_state display_type display_id view_type s =
     (Inr (), s\<lparr>sent := sent s @ [SaveViewState v]\<rparr>)"
  by (simp add: save_view_state.simps get_view_present)

lemma get_view_absent:
  "views s (display_type, unicode display_id, view_type) = None \<Longrightarrow>
   get_view display_type display_id view_type s =
     (Inr (ViewInfo_new (display_type, unicode display_id, view_type)),
      view_created display_type display_id view_type s)"
  by (simp add: get_view.simps [of display_type display_id view_type s] Let_def
      view_created_def save_view_state_present views_at_def)

lemma view_created_simps:
  "views (view_created display_type display_id view_type s)
     = (views s)((display_type, unicode display_id, view_type) \<mapsto>
          ViewInfo_new (display_type, unicode display_id, view_type))"
  "displays (view_created display_type display_id view_type s) = displays s"
  "list_heap (view_created display_type display_id view_type s) = list_heap s"
  by (simp_all add: view_created_def)

lemma get_view_total:
  "get_view display_type display_id view_type s =
     (Inr (view_of s (display_type, unicode display_id, view_type)),
      (if views s (display_type, unicode display_id, view_type) = None
       then view_created display_type display_id view_type s else s))"
  by (cases "views s (display_type, unicode display_id, view_type)")
     (simp_all add: get_view_absent get_view_present view_of_def)

lemma get_display_total:
  "\<exists>d. get_display display_type display_id s =
     (Inr d, (if displays s (display_type, unicode display_id) = None
              then created display_type display_id s else s))"
  by (cases "displays s (display_type, unicode display_id)")
     (simp_all add: get_display_absent get_display_present)

lemma unknown_display_type:
  assumes "display_type \<notin> get_display_types"
  shows "DEFAULT_VIEW_TYPE display_type = None" and "DEFAULT_SORT_COLUMN display_type = None"
    and "DEFAULT_COLUMNS display_type = None" and "AVAILABLE_COLUMNS display_type = None"
  using assms
  by (auto simp: get_display_types_def AVAILABLE_COLUMNS_def DEFAULT_VIEW_TYPE_def
      DEFAULT_SORT_COLUMN_def DEFAULT_COLUMNS_def dom_def split: if_splits)

lemma known_display_type:
  assumes "display_type \<in> get_display_types"
  shows "DEFAULT_VIEW_TYPE display_type \<noteq> None" and "DEFAULT_SORT_COLUMN display_type \<noteq> None"
    and "DEFAULT_COLUMNS display_type \<noteq> None"
  using assms
  by (auto simp: get_display_types_def AVAILABLE_COLUMNS_def DEFAULT_VIEW_TYPE_def
      DEFAULT_SORT_COLUMN_def DEFAULT_COLUMNS_def dom_def split: if_splits)


lemma get_columns_enabled_total:
  "get_columns_enabled display_type display_id LIST_VIEW s =
     (fst (get_columns_enabled display_type display_id LIST_VIEW s),
      (if displays s (display_type, unicode display_id) = None
       then created display_type display_id s else s))"
proof (cases "displays s (display_type, unicode display_id)")
  case None
  then show ?thesis
    by (simp add: get_columns_enabled_absent get_columns_enabled_present [OF created_present]
        split: option.splits)
next
  case (Some d)
  then show ?thesis
    by (simp add: get_columns_enabled_present split: option.splits)
qed

lemma get_columns_enabled_heap:
  "list_heap (snd (get_columns_enabled display_type display_id LIST_VIEW s)) = list_heap s"
  by (subst get_columns_enabled_total) (simp add: created_simps)

lemma get_sort_state_stored:
  assumes v: "views s (display_type, unicode display_id, view_type) = Some view"
    and k: "sort_state view = Some sort_key'"
  shows "view_type = STANDARD_VIEW \<Longrightarrow>
           fst (get_sort_state display_type display_id view_type s) = Inr sort_key'"
    and "view_type = LIST_VIEW \<Longrightarrow>
           fst (get_columns_enabled display_type display_id LIST_VIEW s) = Inr a \<Longrightarrow>
           lstrip_minus sort_key' \<in> set (list_heap s a) \<Longrightarrow>
           fst (get_sort_state display_type display_id view_type s) = Inr sort_key'"
    and "view_type = LIST_VIEW \<Longrightarrow>
           fst (get_columns_enabled display_type display_id LIST_VIEW s) = Inr a \<Longrightarrow>
           lstrip_minus sort_key' \<notin> set (list_heap s a) \<Longrightarrow>
           DEFAULT_SORT_COLUMN display_type = Some dflt \<Longrightarrow>
           fst (get_sort_state display_type display_id view_type s) = Inr dflt"
proof -
  show "fst (get_sort_state display_type display_id view_type s) = Inr sort_key'"
    if "view_type = STANDARD_VIEW"
    using that v k
    by (simp add: get_sort_state_def get_view_present is_standard_view_def)
  have ns: "\<not> is_standard_view LIST_VIEW"
    by (simp add: is_standard_view_def LIST_VIEW_def STANDARD_VIEW_def)
  show "fst (get_sort_state display_type display_id view_type s) = Inr sort_key'"
    if "view_type = LIST_VIEW"
      and "fst (get_columns_enabled display_type display_id LIST_VIEW s) = Inr a"
      and "lstrip_minus sort_key' \<in> set (list_heap s a)"
  proof -
    from that(2) obtain s2 where
      g: "get_columns_enabled display_type display_id LIST_VIEW s = (Inr a, s2)"
      by (metis prod.collapse)
    then have "list_heap s2 = list_heap s"
      using get_columns_enabled_heap [of display_type display_id s] by simp
    then show ?thesis
      using that v k g ns by (simp add: get_sort_state_def get_view_present Let_def)
  qed
  show "fst (get_sort_state display_type display_id view_type s) = Inr dflt"
    if "view_type = LIST_VIEW"
      and "fst (get_columns_enabled display_type display_id LIST_VIEW s) = Inr a"
      and "lstrip_minus sort_key' \<notin> set (list_heap s a)"
      and "DEFAULT_SORT_COLUMN display_type = Some dflt"
  proof -
    from that(2) obtain s2 where
      g: "get_columns_enabled display_type display_id LIST_VIEW s = (Inr a, s2)"
      by (metis prod.collapse)
    then have "list_heap s2 = list_heap s"
      using get_columns_enabled_heap [of display_type display_id s] by simp
    then show ?thesis
      using that v k g ns by (simp add: get_sort_state_def get_view_present Let_def)
  qed
qed

lemma get_columns_enabled_known:
  assumes "DEFAULT_COLUMNS display_type \<noteq> None"
  shows "\<exists>a. fst (get_columns_enabled display_type display_id LIST_VIEW s) = Inr a"
proof (cases "displays s (display_type, unicode display_id)")
  case None
  then show ?thesis
    using assms
    by (auto simp: get_columns_enabled_absent get_columns_enabled_present [OF created_present]
        DisplayInfo_new_def)
next
  case (Some d)
  then show ?thesis
    using assms by (auto simp: get_columns_enabled_present split: option.splits)
qed

lemma get_sort_state_unset:
  assumes df: "DEFAULT_SORT_COLUMN display_type = Some dflt"
    and dc: "DEFAULT_COLUMNS display_type \<noteq> None"
    and vt: "view_type = STANDARD_VIEW \<or> view_type = LIST_VIEW"
    and un: "sort_unset s (display_type, unicode display_id, view_type)"
  shows "fst (get_sort_state display_type display_id view_type s) = Inr dflt"
proof -
  let ?k = "(display_type, unicode display_id, view_type)"
  let ?s1 = "if views s ?k = None then view_created display_type display_id view_type s else s"
  have so: "sort_state (view_of s ?k) = None"
    using un by (auto simp: sort_unset_def view_of_def ViewInfo_new_def split: option.splits)
  show ?thesis
  proof (cases "view_type = STANDARD_VIEW")
    case True
    then show ?thesis
      using df so by (simp add: get_sort_state_def get_view_total is_standard_view_def)
  next
    case False
    with vt have l: "view_type = LIST_VIEW" by simp
    then have ns: "\<not> is_standard_view view_type"
      by (simp add: is_standard_view_def LIST_VIEW_def STANDARD_VIEW_def)
    from get_columns_enabled_known [OF dc] obtain a s2 where
      g: "get_columns_enabled display_type display_id LIST_VIEW ?s1 = (Inr a, s2)"
      by (metis prod.collapse)
    show ?thesis
      using df so ns g l
      by (simp add: get_sort_state_def get_view_total Let_def del: if_split cong: if_cong)
  qed
qed

lemma set_sort_state_stored:
  "\<exists>view. views (snd (set_sort_state display_type display_id view_type sort_key' s))
            (display_type, unicode display_id, view_type) = Some view
         \<and> sort_state view = Some sort_key'
         \<and> fst (set_sort_state display_type display_id view_type sort_key' s) = Inr ()
         \<and> displays (snd (set_sort_state display_type display_id view_type sort_key' s)) = displays s
         \<and> list_heap (snd (set_sort_state display_type display_id view_type sort_key' s)) = list_heap s"
proof -
  let ?k = "(display_type, unicode display_id, view_type)"
  let ?s1 = "if views s ?k = None then view_created display_type display_id view_type s else s"
  let ?v = "(view_of s ?k)\<lparr>sort_state := Some sort_key'\<rparr>"
  let ?s2 = "put_view display_type display_id view_type ?v ?s1"
  have p: "views ?s2 ?k = Some ?v"
    by (simp add: put_view_def)
  have fr: "displays ?s2 = displays s" "list_heap ?s2 = list_heap s"
    by (simp_all add: put_view_def view_created_simps)
  have "set_sort_state display_type display_id view_type sort_key' s
          = (Inr (), ?s2\<lparr>sent := sent ?s2 @ [SaveViewState ?v]\<rparr>)"
    using save_view_state_present [OF p]
    by (simp add: set_sort_state_def get_view_total del: if_split cong: if_cong)
  then show ?thesis
    using p fr by simp
qed


lemma get_columns_enabled_frame:
  assumes "displays s' = displays s"
  shows "fst (get_columns_enabled display_type display_id LIST_VIEW s')
     = fst (get_columns_enabled display_type display_id LIST_VIEW s)"
proof (cases "displays s (display_type, unicode display_id)")
  case None
  with assms have "displays s' (display_type, unicode display_id) = None" by simp
  then show ?thesis
    using None
    by (simp add: get_columns_enabled_absent get_columns_enabled_present [OF created_present]
        split: option.splits)
next
  case (Some d)
  with assms have "displays s' (display_type, unicode display_id) = Some d" by simp
  then show ?thesis
    using Some by (simp add: get_columns_enabled_present split: option.splits)
qed

lemma sort_default_has_columns:
  "DEFAULT_SORT_COLUMN display_type = Some dflt \<Longrightarrow> DEFAULT_COLUMNS display_type \<noteq> None"
  using unknown_display_type(2) [of display_type] known_display_type(3) [of display_type]
  by (cases "display_type \<in> get_display_types") simp_all

text \<open>
  Claim C6.  For a display type of the fixed tables and a standard or list view whose
  sort state was never set, \<open>get_sort_state\<close> returns the default sort column of the
  display type, which is \<open>name\<close> for \<open>videos\<close>.  After \<open>set_sort_state\<close> with a key it
  returns that key, for a standard view always and for a list view when the key's
  column, its leading \<open>-\<close> signs stripped, is among the enabled columns.  For a list
  view whose stored key's column is not among the enabled columns it returns the
  default sort column of the display type.
\<close>

theorem get_sort_state_fallback:
  "(DEFAULT_SORT_COLUMN display_type = Some dflt
      \<and> (view_type = STANDARD_VIEW \<or> view_type = LIST_VIEW)
      \<and> sort_unset s (display_type, unicode display_id, view_type) \<longrightarrow>
        fst (get_sort_state display_type display_id view_type s) = Inr dflt)
   \<and> DEFAULT_SORT_COLUMN ''videos'' = Some ''name''
   \<and> fst (get_sort_state display_type display_id STANDARD_VIEW
            (snd (set_sort_state display_type display_id STANDARD_VIEW sort_key' s)))
       = Inr sort_key'
   \<and> (fst (get_columns_enabled display_type display_id LIST_VIEW s) = Inr a
        \<and> lstrip_minus sort_key' \<in> set (list_heap s a) \<longrightarrow>
        fst (get_sort_state display_type display_id LIST_VIEW
               (snd (set_sort_state display_type display_id LIST_VIEW sort_key' s)))
          = Inr sort_key')
   \<and> (views s (display_type, unicode display_id, LIST_VIEW) = Some view
        \<and> sort_state view = Some sort_key'
        \<and> DEFAULT_SORT_COLUMN display_type = Some dflt
        \<and> fst (get_columns_enabled display_type display_id LIST_VIEW s) = Inr a
        \<and> lstrip_minus sort_key' \<notin> set (list_heap s a) \<longrightarrow>
        fst (get_sort_state display_type display_id LIST_VIEW s) = Inr dflt)"
proof (intro conjI impI)
  show "fst (get_sort_state display_type display_id view_type s) = Inr dflt"
    if "DEFAULT_SORT_COLUMN display_type = Some dflt
        \<and> (view_type = STANDARD_VIEW \<or> view_type = LIST_VIEW)
        \<and> sort_unset s (display_type, unicode display_id, view_type)"
    using that get_sort_state_unset sort_default_has_columns by blast
  show "DEFAULT_SORT_COLUMN ''videos'' = Some ''name''"
    by (simp add: DEFAULT_SORT_COLUMN_def)
  show "fst (get_sort_state display_type display_id STANDARD_VIEW
            (snd (set_sort_state display_type display_id STANDARD_VIEW sort_key' s)))
       = Inr sort_key'"
    using set_sort_state_stored [of display_type display_id STANDARD_VIEW sort_key' s]
      get_sort_state_stored(1) by blast
  show "fst (get_sort_state display_type display_id LIST_VIEW
               (snd (set_sort_state display_type display_id LIST_VIEW sort_key' s)))
          = Inr sort_key'"
    if h: "fst (get_columns_enabled display_type display_id LIST_VIEW s) = Inr a
        \<and> lstrip_minus sort_key' \<in> set (list_heap s a)"
  proof -
    let ?s1 = "snd (set_sort_state display_type display_id LIST_VIEW sort_key' s)"
    from set_sort_state_stored [of display_type display_id LIST_VIEW sort_key' s]
    obtain view where v: "views ?s1 (display_type, unicode display_id, LIST_VIEW) = Some view"
      "sort_state view = Some sort_key'" and fr: "displays ?s1 = displays s"
      "list_heap ?s1 = list_heap s"
      by blast
    have "fst (get_columns_enabled display_type display_id LIST_VIEW ?s1) = Inr a"
      using h get_columns_enabled_frame [OF fr(1)] by simp
    moreover have "lstrip_minus sort_key' \<in> set (list_heap ?s1 a)"
      using h fr(2) by simp
    ultimately show ?thesis
      using get_sort_state_stored(2) [OF v] by blast
  qed
  show "fst (get_sort_state display_type display_id LIST_VIEW s) = Inr dflt"
    if "views s (display_type, unicode display_id, LIST_VIEW) = Some view
        \<and> sort_state view = Some sort_key'
        \<and> DEFAULT_SORT_COLUMN display_type = Some dflt
        \<and> fst (get_columns_enabled display_type display_id LIST_VIEW s) = Inr a
        \<and> lstrip_minus sort_key' \<notin> set (list_heap s a)"
    using that get_sort_state_stored(3) by blast
qed

theorem get_sort_state_fallback_witness:
  "sort_unset store_init (''videos'', ''1'', STANDARD_VIEW)
   \<and> fst (get_sort_state ''videos'' (IdStr ''1'') STANDARD_VIEW store_init) = Inr ''name''
   \<and> fst (get_sort_state ''videos'' (IdStr ''1'') STANDARD_VIEW
            (snd (set_sort_state ''videos'' (IdStr ''1'') STANDARD_VIEW ''artist'' store_init)))
       = Inr ''artist''
   \<and> fst (get_columns_enabled ''music'' (IdStr ''2'') LIST_VIEW store_init) = Inr 1
   \<and> lstrip_minus ''-artist'' \<in> set (list_heap store_init 1)
   \<and> fst (get_sort_state ''music'' (IdStr ''2'') LIST_VIEW
            (snd (set_sort_state ''music'' (IdStr ''2'') LIST_VIEW ''-artist'' store_init)))
       = Inr ''-artist''
   \<and> fst (get_columns_enabled ''videos'' (IdStr ''1'') LIST_VIEW sorted_store) = Inr 0
   \<and> lstrip_minus ''artist'' \<notin> set (list_heap sorted_store 0)
   \<and> fst (get_sort_state ''videos'' (IdStr ''1'') LIST_VIEW sorted_store) = Inr ''name''"
proof -
  have d: "DEFAULT_SORT_COLUMN ''videos'' = Some ''name''"
    by (simp add: DEFAULT_SORT_COLUMN_def)
  have un: "sort_unset store_init (''videos'', unicode (IdStr ''1''), STANDARD_VIEW)"
    by (simp add: sort_unset_def store_init_def)
  note t1 = get_sort_state_fallback
              [of "''videos''" "''name''" STANDARD_VIEW store_init "IdStr ''1''" "''artist''"]
  have a: "fst (get_sort_state ''videos'' (IdStr ''1'') STANDARD_VIEW store_init) = Inr ''name''"
    using t1 d un by blast
  have b: "fst (get_sort_state ''videos'' (IdStr ''1'') STANDARD_VIEW
            (snd (set_sort_state ''videos'' (IdStr ''1'') STANDARD_VIEW ''artist'' store_init)))
       = Inr ''artist''"
    using t1 by blast
  have un2: "columns_unset store_init (''music'', unicode (IdStr ''2''))"
    by (simp add: columns_unset_def store_init_def)
  have m: "DEFAULT_COLUMNS ''music'' = Some 1"
    by (simp add: DEFAULT_COLUMNS_def)
  have g: "fst (get_columns_enabled ''music'' (IdStr ''2'') LIST_VIEW store_init) = Inr 1"
    using get_columns_enabled_unset [OF m un2] by simp
  have l: "lstrip_minus ''-artist'' \<in> set (list_heap store_init 1)"
    by (simp add: lstrip_minus_def store_init_def class_lists_def)
  have c: "fst (get_sort_state ''music'' (IdStr ''2'') LIST_VIEW
            (snd (set_sort_state ''music'' (IdStr ''2'') LIST_VIEW ''-artist'' store_init)))
       = Inr ''-artist''"
    using get_sort_state_fallback
            [of "''music''" "''artist''" LIST_VIEW store_init "IdStr ''2''" "''-artist''" 1] g l
    by blast
  have v: "views sorted_store (''videos'', unicode (IdStr ''1''), LIST_VIEW)
             = Some ((ViewInfo_new (''videos'', ''1'', LIST_VIEW))\<lparr>sort_state := Some ''artist''\<rparr>)"
    by (simp add: sorted_store_def)
  have un3: "columns_unset sorted_store (''videos'', unicode (IdStr ''1''))"
    by (simp add: columns_unset_def sorted_store_def store_init_def)
  have vd: "DEFAULT_COLUMNS ''videos'' = Some 0"
    by (simp add: DEFAULT_COLUMNS_def)
  have g2: "fst (get_columns_enabled ''videos'' (IdStr ''1'') LIST_VIEW sorted_store) = Inr 0"
    using get_columns_enabled_unset [OF vd un3] by simp
  have l2: "lstrip_minus ''artist'' \<notin> set (list_heap sorted_store 0)"
    by (simp add: lstrip_minus_def sorted_store_def store_init_def class_lists_def)
  have e: "fst (get_sort_state ''videos'' (IdStr ''1'') LIST_VIEW sorted_store) = Inr ''name''"
    using get_sort_state_fallback
            [of "''videos''" "''name''" LIST_VIEW sorted_store "IdStr ''1''" "''artist''" 0
                "(ViewInfo_new (''videos'', ''1'', LIST_VIEW))\<lparr>sort_state := Some ''artist''\<rparr>"]
      v d g2 l2
    by simp
  show ?thesis
    using un a b g l c g2 l2 e by simp
qed


lemma get_filters_total:
  "fst (get_filters display_type display_id s) =
     Inr (case displays s (display_type, unicode display_id) of
            None \<Rightarrow> DEFAULT_DISPLAY_FILTERS
          | Some display \<Rightarrow>
              (case active_filters display of
                 None \<Rightarrow> DEFAULT_DISPLAY_FILTERS
               | Some filters \<Rightarrow> filters))"
  by (cases "displays s (display_type, unicode display_id)")
     (simp_all add: get_filters_def get_display_absent get_display_present DisplayInfo_new_def
        split: option.splits)

lemma get_scroll_position_total:
  "fst (get_scroll_position display_type display_id view_type s) =
     Inr (case views s (display_type, unicode display_id, view_type) of
            None \<Rightarrow> (0, 0)
          | Some view \<Rightarrow>
              (case scroll_position view of
                 None \<Rightarrow> (0, 0)
               | Some position \<Rightarrow> position))"
  by (cases "views s (display_type, unicode display_id, view_type)")
     (simp_all add: get_scroll_position_def get_view_absent get_view_present ViewInfo_new_def
        split: option.splits)

lemma display_setters_total:
  "fst (set_selected_view display_type display_id v s) = Inr ()"
  "fst (toggle_filters display_type display_id f s) = Inr ()"
  by (cases "displays s (display_type, unicode display_id)";
      simp add: first_access_setters set_selected_view_present [OF created_present]
        toggle_filters_present [OF created_present]
        set_selected_view_present toggle_filters_present)+

lemma set_scroll_position_total:
  "fst (set_scroll_position display_type display_id view_type position s) = Inr ()"
proof -
  let ?k = "(display_type, unicode display_id, view_type)"
  let ?s1 = "if views s ?k = None then view_created display_type display_id view_type s else s"
  let ?v = "(view_of s ?k)\<lparr>scroll_position := Some position\<rparr>"
  have p: "views (put_view display_type display_id view_type ?v ?s1) ?k = Some ?v"
    by (simp add: put_view_def)
  show ?thesis
    using save_view_state_present [OF p]
    by (simp add: set_scroll_position_def get_view_total del: if_split cong: if_cong)
qed

lemma get_selected_view_unknown:
  assumes "DEFAULT_VIEW_TYPE display_type = None"
    and "selection_unset s (display_type, unicode display_id)"
  shows "fst (get_selected_view display_type display_id s) = Inl KeyError"
  using assms
  by (cases "displays s (display_type, unicode display_id)")
     (simp_all add: get_selected_view_def get_display_absent get_display_present
        DisplayInfo_new_def selection_unset_def)

lemma get_columns_enabled_unknown:
  assumes "DEFAULT_COLUMNS display_type = None"
    and "columns_unset s (display_type, unicode display_id)"
  shows "fst (get_columns_enabled display_type display_id LIST_VIEW s) = Inl KeyError"
  using assms
  by (cases "displays s (display_type, unicode display_id)")
     (simp_all add: get_columns_enabled_absent get_columns_enabled_present [OF created_present]
        get_columns_enabled_present DisplayInfo_new_def columns_unset_def)

lemma get_sort_state_unknown:
  assumes "DEFAULT_SORT_COLUMN display_type = None"
    and "sort_unset s (display_type, unicode display_id, view_type)"
  shows "fst (get_sort_state display_type display_id view_type s) = Inl KeyError"
proof -
  have "sort_state (view_of s (display_type, unicode display_id, view_type)) = None"
    using assms(2)
    by (auto simp: sort_unset_def view_of_def ViewInfo_new_def split: option.splits)
  then show ?thesis
    using assms(1) by (simp add: get_sort_state_def get_view_total)
qed

lemma get_sort_state_bad_view_type:
  assumes lv: "view_type \<noteq> LIST_VIEW" and sv: "view_type \<noteq> STANDARD_VIEW"
    and av: "DEFAULT_SORT_COLUMN display_type \<noteq> None
             \<or> \<not> sort_unset s (display_type, unicode display_id, view_type)"
  shows "fst (get_sort_state display_type display_id view_type s) = Inl ValueError"
proof -
  let ?k = "(display_type, unicode display_id, view_type)"
  have "\<exists>k'. (case sort_state (view_of s ?k) of
                 Some sort_state' \<Rightarrow> Inr sort_state'
               | None \<Rightarrow>
                   (case DEFAULT_SORT_COLUMN display_type of
                      None \<Rightarrow> Inl KeyError
                    | Some sort_state' \<Rightarrow> Inr sort_state')) = Inr k'"
    using av
    by (auto simp: sort_unset_def view_of_def ViewInfo_new_def split: option.splits)
  then obtain k' where k: "(case sort_state (view_of s ?k) of
                 Some sort_state' \<Rightarrow> Inr sort_state'
               | None \<Rightarrow>
                   (case DEFAULT_SORT_COLUMN display_type of
                      None \<Rightarrow> Inl KeyError
                    | Some sort_state' \<Rightarrow> Inr sort_state')) = Inr k'"
    by blast
  show ?thesis
    using lv sv
    by (simp add: get_sort_state_def get_view_total k is_standard_view_def
        get_columns_enabled_def is_list_view_def del: if_split cong: if_cong)
qed

section \<open>Column widths, column toggling and the display saves\<close>


lemma default_widths_error:
  "default_widths names defaults = Inl e \<Longrightarrow> e = KeyError"
  by (induction names arbitrary: defaults) (auto split: option.splits)

lemma default_widths_ok:
  "(\<exists>m. default_widths names defaults = Inr m)
     \<longleftrightarrow> (\<forall>name \<in> set names. DEFAULT_COLUMN_WIDTHS name \<noteq> None)"
  by (induction names arbitrary: defaults) (auto split: option.splits)

lemma default_widths_cases:
  "default_widths names defaults = Inl KeyError
     \<and> \<not> (\<forall>name \<in> set names. DEFAULT_COLUMN_WIDTHS name \<noteq> None)
   \<or> (\<exists>m. default_widths names defaults = Inr m)
     \<and> (\<forall>name \<in> set names. DEFAULT_COLUMN_WIDTHS name \<noteq> None)"
proof (cases "default_widths names defaults")
  case (Inl e)
  then show ?thesis
    using default_widths_error [OF Inl] default_widths_ok [of names defaults] by auto
next
  case (Inr m)
  then show ?thesis
    using default_widths_ok [of names defaults] by auto
qed

text \<open>get_column_widths and update_column_widths on a display that is in the store\<close>

lemma get_column_widths_stored:
  "displays s (display_type, unicode display_id) = Some d \<Longrightarrow> list_view_widths d = Some w \<Longrightarrow>
   get_column_widths display_type display_id LIST_VIEW s = (Inr w, s)"
  by (simp add: get_column_widths_def get_display_present is_list_view_def)

lemma get_column_widths_no_columns:
  "displays s (display_type, unicode display_id) = Some d \<Longrightarrow> list_view_widths d = None \<Longrightarrow>
   fst (get_columns_enabled display_type display_id LIST_VIEW s) = Inl e \<Longrightarrow>
   get_column_widths display_type display_id LIST_VIEW s = (Inl e, s)"
  using present_getters(3) [of s display_type display_id d]
  by (cases "get_columns_enabled display_type display_id LIST_VIEW s")
     (simp add: get_column_widths_def get_display_present is_list_view_def)

lemma get_column_widths_columns:
  "displays s (display_type, unicode display_id) = Some d \<Longrightarrow> list_view_widths d = None \<Longrightarrow>
   fst (get_columns_enabled display_type display_id LIST_VIEW s) = Inr a \<Longrightarrow>
   get_column_widths display_type display_id LIST_VIEW s =
     (case default_widths (list_heap s a) Map.empty of
        Inl e \<Rightarrow> (Inl e, s)
      | Inr defaults \<Rightarrow>
          (Inr (next_dict s),
           s\<lparr>dict_heap := (dict_heap s)(next_dict s := defaults),
             next_dict := Suc (next_dict s)\<rparr>))"
  using present_getters(3) [of s display_type display_id d]
  by (cases "get_columns_enabled display_type display_id LIST_VIEW s")
     (simp add: get_column_widths_def get_display_present is_list_view_def)

lemma update_column_widths_stored:
  "displays s (display_type, unicode display_id) = Some d \<Longrightarrow> list_view_widths d = Some w \<Longrightarrow>
   update_column_widths display_type display_id LIST_VIEW widths s =
     (Inr (), s\<lparr>dict_heap := (dict_heap s)(w := dict_heap s w ++ widths),
                 sent := sent s @ [SaveDisplayState d]\<rparr>)"
  by (simp add: update_column_widths_def get_display_present is_list_view_def
      save_display_state_present)

lemma update_column_widths_no_columns:
  "displays s (display_type, unicode display_id) = Some d \<Longrightarrow> list_view_widths d = None \<Longrightarrow>
   fst (get_columns_enabled display_type display_id LIST_VIEW s) = Inl e \<Longrightarrow>
   update_column_widths display_type display_id LIST_VIEW widths s = (Inl e, s)"
  by (simp add: update_column_widths_def get_display_present is_list_view_def
      get_column_widths_no_columns)

lemma update_column_widths_columns:
  assumes d: "displays s (display_type, unicode display_id) = Some d"
    and w: "list_view_widths d = None"
    and a: "fst (get_columns_enabled display_type display_id LIST_VIEW s) = Inr a"
  shows "update_column_widths display_type display_id LIST_VIEW widths s =
     (case default_widths (list_heap s a) Map.empty of
        Inl e \<Rightarrow> (Inl e, s)
      | Inr defaults \<Rightarrow>
          (Inr (),
           s\<lparr>displays := (displays s)((display_type, unicode display_id) \<mapsto>
                           d\<lparr>list_view_widths := Some (next_dict s)\<rparr>),
             dict_heap := (dict_heap s)(next_dict s := defaults ++ widths),
             next_dict := Suc (next_dict s),
             sent := sent s @ [SaveDisplayState (d\<lparr>list_view_widths := Some (next_dict s)\<rparr>)]\<rparr>))"
proof (cases "default_widths (list_heap s a) Map.empty")
  case (Inl e)
  then show ?thesis
    using d w by (simp add: update_column_widths_def get_display_present is_list_view_def
        get_column_widths_columns [OF d w a])
next
  case (Inr defaults)
  let ?s2 = "s\<lparr>dict_heap := (dict_heap s)(next_dict s := defaults),
               next_dict := Suc (next_dict s)\<rparr>"
  let ?d = "d\<lparr>list_view_widths := Some (next_dict s)\<rparr>"
  let ?s3 = "put_display display_type display_id ?d ?s2"
  let ?s4 = "?s3\<lparr>dict_heap := (dict_heap ?s3)(next_dict s := dict_heap ?s3 (next_dict s) ++ widths)\<rparr>"
  have p: "displays ?s4 (display_type, unicode display_id) = Some ?d"
    by (simp add: put_display_def)
  have "update_column_widths display_type display_id LIST_VIEW widths s
          = save_display_state display_type display_id ?s4"
    using d w Inr
    by (simp add: update_column_widths_def get_display_present is_list_view_def
        get_column_widths_columns [OF d w a])
  then show ?thesis
    using Inr save_display_state_present [OF p] by (simp add: put_display_def)
qed

lemma get_columns_enabled_result:
  "displays s (display_type, unicode display_id) = Some d \<Longrightarrow>
   fst (get_columns_enabled display_type display_id LIST_VIEW s) =
     (case list_view_columns d of
        Some a \<Rightarrow> Inr a
      | None \<Rightarrow> (case DEFAULT_COLUMNS display_type of None \<Rightarrow> Inl KeyError | Some a \<Rightarrow> Inr a))"
  by (simp add: get_columns_enabled_present split: option.splits)

lemma toggle_column_no_columns:
  "displays s (display_type, unicode display_id) = Some d \<Longrightarrow>
   fst (get_columns_enabled display_type display_id LIST_VIEW s) = Inl e \<Longrightarrow>
   toggle_column display_type display_id LIST_VIEW column s = (Inl e, s)"
  using present_getters(3) [of s display_type display_id d]
  by (cases "get_columns_enabled display_type display_id LIST_VIEW s")
     (simp add: toggle_column_def get_display_present is_list_view_def)

lemma toggle_column_columns:
  assumes d: "displays s (display_type, unicode display_id) = Some d"
    and a: "fst (get_columns_enabled display_type display_id LIST_VIEW s) = Inr a"
  shows "toggle_column display_type display_id LIST_VIEW column s =
     (Inr (), s\<lparr>displays := (displays s)((display_type, unicode display_id) \<mapsto>
                                d\<lparr>list_view_columns := Some a\<rparr>),
                 list_heap := (list_heap s)(a := toggled column (list_heap s a)),
                 sent := sent s @ [SaveDisplayState (d\<lparr>list_view_columns := Some a\<rparr>)]\<rparr>)"
proof -
  have "get_columns_enabled display_type display_id LIST_VIEW s = (Inr a, s)"
    using a present_getters(3) [OF d] by (simp add: prod_eq_iff)
  then show ?thesis
    by (rule toggle_column_present [OF d])
qed

lemma new_display_fields:
  "list_view_columns (DisplayInfo_new k) = None" "list_view_widths (DisplayInfo_new k) = None"
  "selected_view (DisplayInfo_new k) = None" "active_filters (DisplayInfo_new k) = None"
  by (simp_all add: DisplayInfo_new_def)










lemma get_sort_state_list_stored:
  assumes v: "views s (display_type, unicode display_id, LIST_VIEW) = Some view"
    and k: "sort_state view = Some sort_key'"
  shows "fst (get_columns_enabled display_type display_id LIST_VIEW s) = Inl e \<Longrightarrow>
           fst (get_sort_state display_type display_id LIST_VIEW s) = Inl e"
    and "fst (get_columns_enabled display_type display_id LIST_VIEW s) = Inr a \<Longrightarrow>
           fst (get_sort_state display_type display_id LIST_VIEW s)
             = (if lstrip_minus sort_key' \<in> set (list_heap s a) then Inr sort_key'
                else (case DEFAULT_SORT_COLUMN display_type of
                        None \<Rightarrow> Inl KeyError
                      | Some dflt \<Rightarrow> Inr dflt))"
proof -
  have ns: "\<not> is_standard_view LIST_VIEW"
    by (simp add: is_standard_view_def LIST_VIEW_def STANDARD_VIEW_def)
  have heap: "list_heap (snd (get_columns_enabled display_type display_id LIST_VIEW s)) = list_heap s"
    by (rule get_columns_enabled_heap)
  show "fst (get_sort_state display_type display_id LIST_VIEW s) = Inl e"
    if "fst (get_columns_enabled display_type display_id LIST_VIEW s) = Inl e"
    using that v k ns
    by (cases "get_columns_enabled display_type display_id LIST_VIEW s")
       (simp add: get_sort_state_def get_view_present)
  show "fst (get_sort_state display_type display_id LIST_VIEW s)
             = (if lstrip_minus sort_key' \<in> set (list_heap s a) then Inr sort_key'
                else (case DEFAULT_SORT_COLUMN display_type of
                        None \<Rightarrow> Inl KeyError
                      | Some dflt \<Rightarrow> Inr dflt))"
    if "fst (get_columns_enabled display_type display_id LIST_VIEW s) = Inr a"
    using that v k ns heap
    by (cases "get_columns_enabled display_type display_id LIST_VIEW s")
       (simp add: get_sort_state_def get_view_present Let_def split: option.splits)
qed



section \<open>The first access to a display\<close>




section \<open>Display types and view types outside the fixed sets\<close>

lemma get_sort_state_not_available:
  assumes "\<not> sort_available s display_type (display_type, unicode display_id, view_type)"
  shows "fst (get_sort_state display_type display_id view_type s) = Inl KeyError"
  using assms get_sort_state_unknown [of display_type s display_id view_type]
  by (simp add: sort_available_def)

lemma get_selected_view_stored:
  "displays s (display_type, unicode display_id) = Some d \<Longrightarrow> selected_view d = Some v \<Longrightarrow>
   fst (get_selected_view display_type display_id s) = Inr v"
  by (simp add: get_selected_view_def get_display_present)

lemma set_columns_enabled_total:
  "fst (set_columns_enabled display_type display_id LIST_VIEW a s) = Inr ()"
  by (cases "displays s (display_type, unicode display_id)")
     (simp_all add: first_access_setters set_columns_enabled_present [OF created_present]
        set_columns_enabled_present)

lemma toggle_column_outcome:
  "fst (toggle_column display_type display_id LIST_VIEW column s) =
     (case fst (get_columns_enabled display_type display_id LIST_VIEW s) of
        Inl e \<Rightarrow> Inl e
      | Inr a \<Rightarrow> Inr ())"
proof (cases "displays s (display_type, unicode display_id)")
  case None
  note cp = created_present [of display_type display_id s]
  show ?thesis
    using None
    by (cases "fst (get_columns_enabled display_type display_id LIST_VIEW
                      (created display_type display_id s))")
       (simp_all add: toggle_column_absent get_columns_enabled_absent
          toggle_column_no_columns [OF cp] toggle_column_columns [OF cp])
next
  case (Some d)
  then show ?thesis
    by (cases "fst (get_columns_enabled display_type display_id LIST_VIEW s)")
       (simp_all add: toggle_column_no_columns [OF Some] toggle_column_columns [OF Some])
qed

lemma unset_cases:
  "columns_unset s k \<longleftrightarrow> displays s k = None
     \<or> (\<exists>d. displays s k = Some d \<and> list_view_columns d = None)"
  "widths_unset s k \<longleftrightarrow> displays s k = None
     \<or> (\<exists>d. displays s k = Some d \<and> list_view_widths d = None)"
  by (auto simp: columns_unset_def widths_unset_def split: option.splits)

lemma widths_no_default_columns:
  assumes df: "DEFAULT_COLUMNS display_type = None"
    and wu: "widths_unset s (display_type, unicode display_id)"
    and cu: "columns_unset s (display_type, unicode display_id)"
  shows "fst (get_column_widths display_type display_id LIST_VIEW s) = Inl KeyError"
    and "fst (update_column_widths display_type display_id LIST_VIEW w s) = Inl KeyError"
proof -
  have both: "fst (get_column_widths display_type display_id LIST_VIEW s) = Inl KeyError
      \<and> fst (update_column_widths display_type display_id LIST_VIEW w s) = Inl KeyError"
  proof (cases "displays s (display_type, unicode display_id)")
    case None
    note cp = created_present [of display_type display_id s]
    have g: "fst (get_columns_enabled display_type display_id LIST_VIEW
                    (created display_type display_id s)) = Inl KeyError"
      using df by (simp add: get_columns_enabled_result [OF cp] new_display_fields)
    show ?thesis
      using None
      by (simp add: first_access_getters first_access_setters
          get_column_widths_no_columns [OF cp new_display_fields(2) g]
          update_column_widths_no_columns [OF cp new_display_fields(2) g])
  next
    case (Some d)
    then have w: "list_view_widths d = None" and c: "list_view_columns d = None"
      using wu cu by (simp_all add: widths_unset_def columns_unset_def)
    have g: "fst (get_columns_enabled display_type display_id LIST_VIEW s) = Inl KeyError"
      using df c by (simp add: get_columns_enabled_result [OF Some])
    show ?thesis
      by (simp add: get_column_widths_no_columns [OF Some w g]
          update_column_widths_no_columns [OF Some w g])
  qed
  from both show "fst (get_column_widths display_type display_id LIST_VIEW s) = Inl KeyError"
    and "fst (update_column_widths display_type display_id LIST_VIEW w s) = Inl KeyError"
    by simp_all
qed

lemma widths_stored_columns:
  assumes d: "displays s (display_type, unicode display_id) = Some d"
    and w: "list_view_widths d = None" and c: "list_view_columns d = Some a"
  shows "fst (get_column_widths display_type display_id LIST_VIEW s)
           = (if \<forall>name \<in> set (list_heap s a). DEFAULT_COLUMN_WIDTHS name \<noteq> None
              then Inr (next_dict s) else Inl KeyError)"
    and "fst (update_column_widths display_type display_id LIST_VIEW widths s)
           = (if \<forall>name \<in> set (list_heap s a). DEFAULT_COLUMN_WIDTHS name \<noteq> None
              then Inr () else Inl KeyError)"
proof -
  have g: "fst (get_columns_enabled display_type display_id LIST_VIEW s) = Inr a"
    using c by (simp add: get_columns_enabled_result [OF d])
  from default_widths_cases [of "list_heap s a" Map.empty]
  have "fst (get_column_widths display_type display_id LIST_VIEW s)
           = (if \<forall>name \<in> set (list_heap s a). DEFAULT_COLUMN_WIDTHS name \<noteq> None
              then Inr (next_dict s) else Inl KeyError)
      \<and> fst (update_column_widths display_type display_id LIST_VIEW widths s)
           = (if \<forall>name \<in> set (list_heap s a). DEFAULT_COLUMN_WIDTHS name \<noteq> None
              then Inr () else Inl KeyError)"
  proof (elim disjE conjE exE)
    assume "default_widths (list_heap s a) Map.empty = Inl KeyError"
      and "\<not> (\<forall>name \<in> set (list_heap s a). DEFAULT_COLUMN_WIDTHS name \<noteq> None)"
    then show ?thesis
      by (simp add: get_column_widths_columns [OF d w g] update_column_widths_columns [OF d w g])
  next
    fix m
    assume "default_widths (list_heap s a) Map.empty = Inr m"
      and "\<forall>name \<in> set (list_heap s a). DEFAULT_COLUMN_WIDTHS name \<noteq> None"
    then show ?thesis
      by (simp add: get_column_widths_columns [OF d w g] update_column_widths_columns [OF d w g])
  qed
  then show "fst (get_column_widths display_type display_id LIST_VIEW s)
           = (if \<forall>name \<in> set (list_heap s a). DEFAULT_COLUMN_WIDTHS name \<noteq> None
              then Inr (next_dict s) else Inl KeyError)"
    and "fst (update_column_widths display_type display_id LIST_VIEW widths s)
           = (if \<forall>name \<in> set (list_heap s a). DEFAULT_COLUMN_WIDTHS name \<noteq> None
              then Inr () else Inl KeyError)"
    by simp_all
qed

lemma get_sort_state_standard_stored:
  "views s (display_type, unicode display_id, STANDARD_VIEW) = Some view \<Longrightarrow>
   sort_state view = Some sort_key' \<Longrightarrow>
   fst (get_sort_state display_type display_id STANDARD_VIEW s) = Inr sort_key'"
  using get_sort_state_stored(1) [of s display_type display_id STANDARD_VIEW view sort_key']
  by simp

text \<open>
  Claim C9, as the code has it.  The operations that are valid for list views only
  (\<open>get_columns_enabled\<close>, \<open>set_columns_enabled\<close>, \<open>toggle_column\<close>,
  \<open>get_column_widths\<close>, \<open>update_column_widths\<close>) raise \<open>ValueError\<close> for every other view
  type and leave the store untouched.  \<open>get_sort_state\<close>, for a view type that is
  neither list nor standard view, raises \<open>ValueError\<close> when it has a sort key to go on
  with (one stored in the view, or a default for the display type) and \<open>KeyError\<close>
  when it has none.  \<open>set_sort_state\<close>, \<open>get_scroll_position\<close>,
  \<open>set_scroll_position\<close>, \<open>get_filters\<close>, \<open>toggle_filters\<close>, \<open>set_selected_view\<close> and
  \<open>set_columns_enabled\<close> on a list view never raise, whatever the display type and the
  view type: the getters return the stored value or the default.  For a display type
  outside the fixed set, on a list view where the operation needs one:
  \<open>get_columns_available\<close> raises \<open>KeyError\<close>; \<open>get_selected_view\<close> raises \<open>KeyError\<close>
  when no selection is stored and returns the stored one otherwise;
  \<open>get_columns_enabled\<close> and \<open>toggle_column\<close> raise \<open>KeyError\<close> when no columns are
  stored and return normally otherwise; \<open>get_column_widths\<close> and
  \<open>update_column_widths\<close> return normally when widths are stored, raise \<open>KeyError\<close> when
  neither widths nor columns are stored, and with columns but no widths stored return
  normally exactly when every stored column has a default width; \<open>get_sort_state\<close>
  raises \<open>KeyError\<close> when no sort key is stored, returns the stored key for a standard
  view, and for a list view returns it exactly when columns are stored and contain the
  key's column (the leading \<open>-\<close> stripped), raising \<open>KeyError\<close> otherwise.
\<close>

theorem invalid_arguments:
  "(view_type \<noteq> LIST_VIEW \<longrightarrow>
      get_columns_enabled display_type display_id view_type s = (Inl ValueError, s)
      \<and> set_columns_enabled display_type display_id view_type a s = (Inl ValueError, s)
      \<and> toggle_column display_type display_id view_type column s = (Inl ValueError, s)
      \<and> get_column_widths display_type display_id view_type s = (Inl ValueError, s)
      \<and> update_column_widths display_type display_id view_type w s = (Inl ValueError, s))
   \<and> (view_type \<noteq> LIST_VIEW \<and> view_type \<noteq> STANDARD_VIEW \<longrightarrow>
      fst (get_sort_state display_type display_id view_type s)
        = (if sort_available s display_type (display_type, unicode display_id, view_type)
           then Inl ValueError else Inl KeyError))
   \<and> fst (set_sort_state display_type display_id view_type sort_key' s) = Inr ()
   \<and> fst (get_scroll_position display_type display_id view_type s) =
       Inr (case views s (display_type, unicode display_id, view_type) of
              None \<Rightarrow> (0, 0)
            | Some view \<Rightarrow>
                (case scroll_position view of
                   None \<Rightarrow> (0, 0)
                 | Some position \<Rightarrow> position))
   \<and> fst (set_scroll_position display_type display_id view_type position s) = Inr ()
   \<and> fst (get_filters display_type display_id s) =
       Inr (case displays s (display_type, unicode display_id) of
              None \<Rightarrow> DEFAULT_DISPLAY_FILTERS
            | Some display \<Rightarrow>
                (case active_filters display of
                   None \<Rightarrow> DEFAULT_DISPLAY_FILTERS
                 | Some filters \<Rightarrow> filters))
   \<and> fst (toggle_filters display_type display_id f s) = Inr ()
   \<and> fst (set_selected_view display_type display_id v s) = Inr ()
   \<and> fst (set_columns_enabled display_type display_id LIST_VIEW a s) = Inr ()
   \<and> (display_type \<notin> get_display_types \<longrightarrow>
      get_columns_available display_type = Inl KeyError
      \<and> (selection_unset s (display_type, unicode display_id) \<longrightarrow>
            fst (get_selected_view display_type display_id s) = Inl KeyError)
      \<and> (displays s (display_type, unicode display_id) = Some d \<and> selected_view d = Some v' \<longrightarrow>
            fst (get_selected_view display_type display_id s) = Inr v')
      \<and> (columns_unset s (display_type, unicode display_id) \<longrightarrow>
            fst (get_columns_enabled display_type display_id LIST_VIEW s) = Inl KeyError
            \<and> fst (toggle_column display_type display_id LIST_VIEW column s) = Inl KeyError)
      \<and> (displays s (display_type, unicode display_id) = Some d
            \<and> list_view_columns d = Some a' \<longrightarrow>
            fst (get_columns_enabled display_type display_id LIST_VIEW s) = Inr a'
            \<and> fst (toggle_column display_type display_id LIST_VIEW column s) = Inr ())
      \<and> (displays s (display_type, unicode display_id) = Some d
            \<and> list_view_widths d = Some wa \<longrightarrow>
            fst (get_column_widths display_type display_id LIST_VIEW s) = Inr wa
            \<and> fst (update_column_widths display_type display_id LIST_VIEW w s) = Inr ())
      \<and> (widths_unset s (display_type, unicode display_id)
            \<and> columns_unset s (display_type, unicode display_id) \<longrightarrow>
            fst (get_column_widths display_type display_id LIST_VIEW s) = Inl KeyError
            \<and> fst (update_column_widths display_type display_id LIST_VIEW w s) = Inl KeyError)
      \<and> (displays s (display_type, unicode display_id) = Some d
            \<and> list_view_widths d = None \<and> list_view_columns d = Some a' \<longrightarrow>
            fst (get_column_widths display_type display_id LIST_VIEW s)
              = (if \<forall>name \<in> set (list_heap s a'). DEFAULT_COLUMN_WIDTHS name \<noteq> None
                 then Inr (next_dict s) else Inl KeyError)
            \<and> fst (update_column_widths display_type display_id LIST_VIEW w s)
              = (if \<forall>name \<in> set (list_heap s a'). DEFAULT_COLUMN_WIDTHS name \<noteq> None
                 then Inr () else Inl KeyError))
      \<and> (sort_unset s (display_type, unicode display_id, view_type) \<longrightarrow>
            fst (get_sort_state display_type display_id view_type s) = Inl KeyError)
      \<and> (views s (display_type, unicode display_id, STANDARD_VIEW) = Some view
            \<and> sort_state view = Some stored_key \<longrightarrow>
            fst (get_sort_state display_type display_id STANDARD_VIEW s) = Inr stored_key)
      \<and> (views s (display_type, unicode display_id, LIST_VIEW) = Some view
            \<and> sort_state view = Some stored_key
            \<and> columns_unset s (display_type, unicode display_id) \<longrightarrow>
            fst (get_sort_state display_type display_id LIST_VIEW s) = Inl KeyError)
      \<and> (views s (display_type, unicode display_id, LIST_VIEW) = Some view
            \<and> sort_state view = Some stored_key
            \<and> displays s (display_type, unicode display_id) = Some d
            \<and> list_view_columns d = Some a' \<longrightarrow>
            fst (get_sort_state display_type display_id LIST_VIEW s)
              = (if lstrip_minus stored_key \<in> set (list_heap s a') then Inr stored_key
                 else Inl KeyError)))"
proof (intro conjI impI)
  let ?k = "(display_type, unicode display_id)"
  {
    assume "view_type \<noteq> LIST_VIEW"
    then have n: "\<not> is_list_view view_type" by (simp add: is_list_view_def)
    show "get_columns_enabled display_type display_id view_type s = (Inl ValueError, s)"
      using n by (simp add: get_columns_enabled_def)
    show "set_columns_enabled display_type display_id view_type a s = (Inl ValueError, s)"
      using n by (simp add: set_columns_enabled_def)
    show "toggle_column display_type display_id view_type column s = (Inl ValueError, s)"
      using n by (simp add: toggle_column_def)
    show "get_column_widths display_type display_id view_type s = (Inl ValueError, s)"
      using n by (simp add: get_column_widths_def)
    show "update_column_widths display_type display_id view_type w s = (Inl ValueError, s)"
      using n by (simp add: update_column_widths_def)
  }
  show "fst (get_sort_state display_type display_id view_type s)
        = (if sort_available s display_type (display_type, unicode display_id, view_type)
           then Inl ValueError else Inl KeyError)"
    if "view_type \<noteq> LIST_VIEW \<and> view_type \<noteq> STANDARD_VIEW"
  proof (cases "sort_available s display_type (display_type, unicode display_id, view_type)")
    case True
    then have "DEFAULT_SORT_COLUMN display_type \<noteq> None
             \<or> \<not> sort_unset s (display_type, unicode display_id, view_type)"
      by (auto simp: sort_available_def)
    with that True show ?thesis
      using get_sort_state_bad_view_type [of view_type display_type s display_id] by simp
  next
    case False
    then show ?thesis by (simp add: get_sort_state_not_available)
  qed
  show "fst (set_sort_state display_type display_id view_type sort_key' s) = Inr ()"
    using set_sort_state_stored [of display_type display_id view_type sort_key' s] by blast
  show "fst (get_scroll_position display_type display_id view_type s) =
       Inr (case views s (display_type, unicode display_id, view_type) of
              None \<Rightarrow> (0, 0)
            | Some view \<Rightarrow>
                (case scroll_position view of
                   None \<Rightarrow> (0, 0)
                 | Some position \<Rightarrow> position))"
    by (rule get_scroll_position_total)
  show "fst (set_scroll_position display_type display_id view_type position s) = Inr ()"
    by (rule set_scroll_position_total)
  show "fst (get_filters display_type display_id s) =
       Inr (case displays s (display_type, unicode display_id) of
              None \<Rightarrow> DEFAULT_DISPLAY_FILTERS
            | Some display \<Rightarrow>
                (case active_filters display of
                   None \<Rightarrow> DEFAULT_DISPLAY_FILTERS
                 | Some filters \<Rightarrow> filters))"
    by (rule get_filters_total)
  show "fst (toggle_filters display_type display_id f s) = Inr ()"
    by (rule display_setters_total)
  show "fst (set_selected_view display_type display_id v s) = Inr ()"
    by (rule display_setters_total)
  show "fst (set_columns_enabled display_type display_id LIST_VIEW a s) = Inr ()"
    by (rule set_columns_enabled_total)
  {
    assume u: "display_type \<notin> get_display_types"
    note tables = unknown_display_type [OF u]
    show "get_columns_available display_type = Inl KeyError"
      using tables by (simp add: get_columns_available_def)
    show "fst (get_selected_view display_type display_id s) = Inl KeyError"
      if "selection_unset s ?k"
      using that tables get_selected_view_unknown by blast
    show "fst (get_selected_view display_type display_id s) = Inr v'"
      if "displays s ?k = Some d \<and> selected_view d = Some v'"
      using that get_selected_view_stored by blast
    {
      assume cu: "columns_unset s ?k"
      show g: "fst (get_columns_enabled display_type display_id LIST_VIEW s) = Inl KeyError"
        using cu tables get_columns_enabled_unknown by blast
      show "fst (toggle_column display_type display_id LIST_VIEW column s) = Inl KeyError"
        using g by (simp add: toggle_column_outcome)
    }
    {
      assume st: "displays s ?k = Some d \<and> list_view_columns d = Some a'"
      show g: "fst (get_columns_enabled display_type display_id LIST_VIEW s) = Inr a'"
        using st by (simp add: get_columns_enabled_result [of s display_type display_id d])
      show "fst (toggle_column display_type display_id LIST_VIEW column s) = Inr ()"
        using g by (simp add: toggle_column_outcome)
    }
    {
      assume st: "displays s ?k = Some d \<and> list_view_widths d = Some wa"
      show "fst (get_column_widths display_type display_id LIST_VIEW s) = Inr wa"
        using st get_column_widths_stored [of s display_type display_id d wa] by simp
      show "fst (update_column_widths display_type display_id LIST_VIEW w s) = Inr ()"
        using st update_column_widths_stored [of s display_type display_id d wa w] by simp
    }
    {
      assume un: "widths_unset s ?k \<and> columns_unset s ?k"
      show "fst (get_column_widths display_type display_id LIST_VIEW s) = Inl KeyError"
        using un tables widths_no_default_columns(1) by blast
      show "fst (update_column_widths display_type display_id LIST_VIEW w s) = Inl KeyError"
        using un tables widths_no_default_columns(2) by blast
    }
    {
      assume st: "displays s ?k = Some d \<and> list_view_widths d = None
                  \<and> list_view_columns d = Some a'"
      show "fst (get_column_widths display_type display_id LIST_VIEW s)
              = (if \<forall>name \<in> set (list_heap s a'). DEFAULT_COLUMN_WIDTHS name \<noteq> None
                 then Inr (next_dict s) else Inl KeyError)"
        using st widths_stored_columns(1) [of s display_type display_id d a'] by blast
      show "fst (update_column_widths display_type display_id LIST_VIEW w s)
              = (if \<forall>name \<in> set (list_heap s a'). DEFAULT_COLUMN_WIDTHS name \<noteq> None
                 then Inr () else Inl KeyError)"
        using st widths_stored_columns(2) [of s display_type display_id d a' w] by blast
    }
    show "fst (get_sort_state display_type display_id view_type s) = Inl KeyError"
      if "sort_unset s (display_type, unicode display_id, view_type)"
      using that tables get_sort_state_unknown by blast
    show "fst (get_sort_state display_type display_id STANDARD_VIEW s) = Inr stored_key"
      if "views s (display_type, unicode display_id, STANDARD_VIEW) = Some view
          \<and> sort_state view = Some stored_key"
      using that get_sort_state_standard_stored by blast
    show "fst (get_sort_state display_type display_id LIST_VIEW s) = Inl KeyError"
      if h: "views s (display_type, unicode display_id, LIST_VIEW) = Some view
          \<and> sort_state view = Some stored_key \<and> columns_unset s ?k"
    proof -
      have g: "fst (get_columns_enabled display_type display_id LIST_VIEW s) = Inl KeyError"
        using h tables get_columns_enabled_unknown by blast
      from h have v: "views s (display_type, unicode display_id, LIST_VIEW) = Some view"
        and k: "sort_state view = Some stored_key" by simp_all
      show ?thesis
        using get_sort_state_list_stored(1) [OF v k g] .
    qed
    show "fst (get_sort_state display_type display_id LIST_VIEW s)
              = (if lstrip_minus stored_key \<in> set (list_heap s a') then Inr stored_key
                 else Inl KeyError)"
      if h: "views s (display_type, unicode display_id, LIST_VIEW) = Some view
          \<and> sort_state view = Some stored_key
          \<and> displays s ?k = Some d \<and> list_view_columns d = Some a'"
    proof -
      have g: "fst (get_columns_enabled display_type display_id LIST_VIEW s) = Inr a'"
        using h by (simp add: get_columns_enabled_result [of s display_type display_id d])
      from h have v: "views s (display_type, unicode display_id, LIST_VIEW) = Some view"
        and k: "sort_state view = Some stored_key" by simp_all
      show ?thesis
        using get_sort_state_list_stored(2) [OF v k g] tables by simp
    qed
  }
qed

theorem invalid_arguments_witness:
  "STANDARD_VIEW \<noteq> LIST_VIEW
   \<and> get_columns_enabled ''videos'' (IdStr ''1'') STANDARD_VIEW store_init
       = (Inl ValueError, store_init)
   \<and> toggle_column ''videos'' (IdStr ''1'') STANDARD_VIEW ''rating'' store_init
       = (Inl ValueError, store_init)
   \<and> update_column_widths ''videos'' (IdStr ''1'') STANDARD_VIEW Map.empty store_init
       = (Inl ValueError, store_init)
   \<and> 7 \<noteq> LIST_VIEW \<and> 7 \<noteq> STANDARD_VIEW
   \<and> sort_available store_init ''videos'' (''videos'', ''1'', 7)
   \<and> fst (get_sort_state ''videos'' (IdStr ''1'') 7 store_init) = Inl ValueError
   \<and> \<not> sort_available store_init ''bogus'' (''bogus'', ''1'', 7)
   \<and> fst (get_sort_state ''bogus'' (IdStr ''1'') 7 store_init) = Inl KeyError
   \<and> ''bogus'' \<notin> get_display_types
   \<and> get_columns_available ''bogus'' = Inl KeyError
   \<and> selection_unset store_init (''bogus'', ''1'')
   \<and> fst (get_selected_view ''bogus'' (IdStr ''1'') store_init) = Inl KeyError
   \<and> columns_unset store_init (''bogus'', ''1'')
   \<and> fst (get_columns_enabled ''bogus'' (IdStr ''1'') LIST_VIEW store_init) = Inl KeyError
   \<and> fst (toggle_column ''bogus'' (IdStr ''1'') LIST_VIEW ''rating'' store_init) = Inl KeyError
   \<and> widths_unset store_init (''bogus'', ''1'')
   \<and> fst (get_column_widths ''bogus'' (IdStr ''1'') LIST_VIEW store_init) = Inl KeyError
   \<and> fst (update_column_widths ''bogus'' (IdStr ''1'') LIST_VIEW Map.empty store_init)
       = Inl KeyError
   \<and> sort_unset store_init (''bogus'', ''1'', STANDARD_VIEW)
   \<and> fst (get_sort_state ''bogus'' (IdStr ''1'') STANDARD_VIEW store_init) = Inl KeyError
   \<and> fst (set_columns_enabled ''bogus'' (IdStr ''1'') LIST_VIEW 0 store_init) = Inr ()
   \<and> fst (get_selected_view ''bogus'' (IdStr ''1'')
             (stored_store (Some 7) None [''name'', ''oddity''])) = Inr 1
   \<and> fst (get_columns_enabled ''bogus'' (IdStr ''1'') LIST_VIEW
             (stored_store (Some 7) None [''name'', ''oddity''])) = Inr 7
   \<and> fst (toggle_column ''bogus'' (IdStr ''1'') LIST_VIEW ''rating''
             (stored_store (Some 7) None [''name'', ''oddity''])) = Inr ()
   \<and> fst (get_column_widths ''bogus'' (IdStr ''1'') LIST_VIEW
             (stored_store (Some 7) None [''name'', ''oddity''])) = Inl KeyError
   \<and> fst (update_column_widths ''bogus'' (IdStr ''1'') LIST_VIEW Map.empty
             (stored_store (Some 7) None [''name'', ''oddity''])) = Inl KeyError
   \<and> fst (get_sort_state ''bogus'' (IdStr ''1'') STANDARD_VIEW
             (stored_store (Some 7) None [''name'', ''oddity''])) = Inr ''date''
   \<and> fst (get_sort_state ''bogus'' (IdStr ''1'') LIST_VIEW
             (stored_store (Some 7) None [''name'', ''oddity''])) = Inr ''-name''
   \<and> fst (get_column_widths ''bogus'' (IdStr ''1'') LIST_VIEW
             (stored_store (Some 7) None [''rating''])) = Inr 0
   \<and> fst (update_column_widths ''bogus'' (IdStr ''1'') LIST_VIEW Map.empty
             (stored_store (Some 7) None [''rating''])) = Inr ()
   \<and> fst (get_sort_state ''bogus'' (IdStr ''1'') LIST_VIEW
             (stored_store (Some 7) None [''rating''])) = Inl KeyError
   \<and> fst (get_column_widths ''bogus'' (IdStr ''1'') LIST_VIEW
             (stored_store None (Some 3) [])) = Inr 3
   \<and> fst (update_column_widths ''bogus'' (IdStr ''1'') LIST_VIEW Map.empty
             (stored_store None (Some 3) [])) = Inr ()
   \<and> columns_unset (stored_store None (Some 3) []) (''bogus'', ''1'')
   \<and> fst (get_sort_state ''bogus'' (IdStr ''1'') LIST_VIEW
             (stored_store None (Some 3) [])) = Inl KeyError"
proof -
  let ?S1 = "stored_store (Some 7) None [''name'', ''oddity'']"
  let ?S2 = "stored_store (Some 7) None [''rating'']"
  let ?S3 = "stored_store None (Some 3) []"
  let ?d1 = "(DisplayInfo_new (''bogus'', ''1''))
               \<lparr>selected_view := Some 1, list_view_columns := Some 7, list_view_widths := None\<rparr>"
  let ?d3 = "(DisplayInfo_new (''bogus'', ''1''))
               \<lparr>selected_view := Some 1, list_view_columns := None,
                list_view_widths := Some 3\<rparr>"
  let ?vl = "(ViewInfo_new (''bogus'', ''1'', LIST_VIEW))\<lparr>sort_state := Some ''-name''\<rparr>"
  let ?vs = "(ViewInfo_new (''bogus'', ''1'', STANDARD_VIEW))\<lparr>sort_state := Some ''date''\<rparr>"
  have v: "STANDARD_VIEW \<noteq> LIST_VIEW" "7 \<noteq> LIST_VIEW" "7 \<noteq> STANDARD_VIEW"
    by (simp_all add: STANDARD_VIEW_def LIST_VIEW_def)
  have b: "''bogus'' \<notin> get_display_types"
    by (simp add: get_display_types_def AVAILABLE_COLUMNS_def)
  have sa: "sort_available store_init ''videos'' (''videos'', unicode (IdStr ''1''), 7)"
    by (simp add: sort_available_def DEFAULT_SORT_COLUMN_def)
  have nsa: "\<not> sort_available store_init ''bogus'' (''bogus'', unicode (IdStr ''1''), 7)"
    by (simp add: sort_available_def sort_unset_def store_init_def DEFAULT_SORT_COLUMN_def)
  have u: "selection_unset store_init (''bogus'', unicode (IdStr ''1''))"
    "columns_unset store_init (''bogus'', unicode (IdStr ''1''))"
    "widths_unset store_init (''bogus'', unicode (IdStr ''1''))"
    "sort_unset store_init (''bogus'', unicode (IdStr ''1''), STANDARD_VIEW)"
    by (simp_all add: selection_unset_def columns_unset_def widths_unset_def sort_unset_def
        store_init_def)
  have d1: "displays ?S1 (''bogus'', unicode (IdStr ''1'')) = Some ?d1"
    and d2: "displays ?S2 (''bogus'', unicode (IdStr ''1'')) = Some ?d1"
    and d3: "displays ?S3 (''bogus'', unicode (IdStr ''1'')) = Some ?d3"
    by (simp_all add: stored_store_def)
  have f1: "selected_view ?d1 = Some 1" "list_view_columns ?d1 = Some 7"
    "list_view_widths ?d1 = None"
    and f3: "list_view_widths ?d3 = Some 3"
    by (simp_all add: DisplayInfo_new_def)
  have cu3: "columns_unset ?S3 (''bogus'', unicode (IdStr ''1''))"
    by (simp add: columns_unset_def stored_store_def DisplayInfo_new_def)
  have ne: "LIST_VIEW \<noteq> STANDARD_VIEW" using v(1) by simp
  have vl: "views ?S1 (''bogus'', unicode (IdStr ''1''), LIST_VIEW) = Some ?vl"
    "views ?S2 (''bogus'', unicode (IdStr ''1''), LIST_VIEW) = Some ?vl"
    "views ?S3 (''bogus'', unicode (IdStr ''1''), LIST_VIEW) = Some ?vl"
    and vs: "views ?S1 (''bogus'', unicode (IdStr ''1''), STANDARD_VIEW) = Some ?vs"
    using ne by (simp_all add: stored_store_def)
  have k: "sort_state ?vl = Some ''-name''" "sort_state ?vs = Some ''date''"
    by (simp_all add: ViewInfo_new_def)
  have h1: "list_heap ?S1 7 = [''name'', ''oddity'']"
    and h2: "list_heap ?S2 7 = [''rating'']"
    and nd: "next_dict ?S2 = 0"
    by (simp_all add: stored_store_def store_init_def)
  have w1: "\<not> (\<forall>name \<in> set (list_heap ?S1 7). DEFAULT_COLUMN_WIDTHS name \<noteq> None)"
    by (simp add: h1 DEFAULT_COLUMN_WIDTHS_def)
  have w2: "\<forall>name \<in> set (list_heap ?S2 7). DEFAULT_COLUMN_WIDTHS name \<noteq> None"
    by (simp add: h2 DEFAULT_COLUMN_WIDTHS_def)
  have m1: "lstrip_minus ''-name'' \<in> set (list_heap ?S1 7)"
    by (simp add: h1 lstrip_minus_def)
  have m2: "lstrip_minus ''-name'' \<notin> set (list_heap ?S2 7)"
    by (simp add: h2 lstrip_minus_def)
  note t1 = invalid_arguments
      [where view_type = STANDARD_VIEW and display_type = "''videos''"
         and display_id = "IdStr ''1''" and s = store_init and a = 0 and column = "''rating''"
         and w = Map.empty and sort_key' = "[]" and position = "(0, 0)" and f = 0 and v = 1
         and d = ?d1 and v' = 1 and a' = 7 and wa = 3 and view = ?vl
         and stored_key = "''-name''"]
  note t2 = invalid_arguments
      [where view_type = 7 and display_type = "''videos''"
         and display_id = "IdStr ''1''" and s = store_init and a = 0 and column = "''rating''"
         and w = Map.empty and sort_key' = "[]" and position = "(0, 0)" and f = 0 and v = 1
         and d = ?d1 and v' = 1 and a' = 7 and wa = 3 and view = ?vl
         and stored_key = "''-name''"]
  note t3 = invalid_arguments
      [where view_type = 7 and display_type = "''bogus''"
         and display_id = "IdStr ''1''" and s = store_init and a = 0 and column = "''rating''"
         and w = Map.empty and sort_key' = "[]" and position = "(0, 0)" and f = 0 and v = 1
         and d = ?d1 and v' = 1 and a' = 7 and wa = 3 and view = ?vl
         and stored_key = "''-name''"]
  note t4 = invalid_arguments
      [where view_type = STANDARD_VIEW and display_type = "''bogus''"
         and display_id = "IdStr ''1''" and s = store_init and a = 0 and column = "''rating''"
         and w = Map.empty and sort_key' = "[]" and position = "(0, 0)" and f = 0 and v = 1
         and d = ?d1 and v' = 1 and a' = 7 and wa = 3 and view = ?vl
         and stored_key = "''-name''"]
  note t5 = invalid_arguments
      [where view_type = STANDARD_VIEW and display_type = "''bogus''"
         and display_id = "IdStr ''1''" and s = ?S1 and a = 0 and column = "''rating''"
         and w = Map.empty and sort_key' = "[]" and position = "(0, 0)" and f = 0 and v = 1
         and d = ?d1 and v' = 1 and a' = 7 and wa = 3 and view = ?vs
         and stored_key = "''date''"]
  note t6 = invalid_arguments
      [where view_type = STANDARD_VIEW and display_type = "''bogus''"
         and display_id = "IdStr ''1''" and s = ?S1 and a = 0 and column = "''rating''"
         and w = Map.empty and sort_key' = "[]" and position = "(0, 0)" and f = 0 and v = 1
         and d = ?d1 and v' = 1 and a' = 7 and wa = 3 and view = ?vl
         and stored_key = "''-name''"]
  note t7 = invalid_arguments
      [where view_type = STANDARD_VIEW and display_type = "''bogus''"
         and display_id = "IdStr ''1''" and s = ?S2 and a = 0 and column = "''rating''"
         and w = Map.empty and sort_key' = "[]" and position = "(0, 0)" and f = 0 and v = 1
         and d = ?d1 and v' = 1 and a' = 7 and wa = 3 and view = ?vl
         and stored_key = "''-name''"]
  note t8 = invalid_arguments
      [where view_type = STANDARD_VIEW and display_type = "''bogus''"
         and display_id = "IdStr ''1''" and s = ?S3 and a = 0 and column = "''rating''"
         and w = Map.empty and sort_key' = "[]" and position = "(0, 0)" and f = 0 and v = 1
         and d = ?d3 and v' = 1 and a' = 7 and wa = 3 and view = ?vl
         and stored_key = "''-name''"]
  have a1: "get_columns_enabled ''videos'' (IdStr ''1'') STANDARD_VIEW store_init
              = (Inl ValueError, store_init)"
    "toggle_column ''videos'' (IdStr ''1'') STANDARD_VIEW ''rating'' store_init
              = (Inl ValueError, store_init)"
    "update_column_widths ''videos'' (IdStr ''1'') STANDARD_VIEW Map.empty store_init
              = (Inl ValueError, store_init)"
    using t1 v(1) by blast+
  have a2: "fst (get_sort_state ''videos'' (IdStr ''1'') 7 store_init) = Inl ValueError"
    using t2 v sa by simp
  have a3: "fst (get_sort_state ''bogus'' (IdStr ''1'') 7 store_init) = Inl KeyError"
    using t3 v nsa by simp
  have a4: "get_columns_available ''bogus'' = Inl KeyError"
    "fst (get_selected_view ''bogus'' (IdStr ''1'') store_init) = Inl KeyError"
    "fst (get_columns_enabled ''bogus'' (IdStr ''1'') LIST_VIEW store_init) = Inl KeyError"
    "fst (toggle_column ''bogus'' (IdStr ''1'') LIST_VIEW ''rating'' store_init) = Inl KeyError"
    "fst (get_column_widths ''bogus'' (IdStr ''1'') LIST_VIEW store_init) = Inl KeyError"
    "fst (update_column_widths ''bogus'' (IdStr ''1'') LIST_VIEW Map.empty store_init)
       = Inl KeyError"
    "fst (get_sort_state ''bogus'' (IdStr ''1'') STANDARD_VIEW store_init) = Inl KeyError"
    "fst (set_columns_enabled ''bogus'' (IdStr ''1'') LIST_VIEW 0 store_init) = Inr ()"
    using t4 b u by blast+
  have a5: "fst (get_selected_view ''bogus'' (IdStr ''1'') ?S1) = Inr 1"
    "fst (get_columns_enabled ''bogus'' (IdStr ''1'') LIST_VIEW ?S1) = Inr 7"
    "fst (toggle_column ''bogus'' (IdStr ''1'') LIST_VIEW ''rating'' ?S1) = Inr ()"
    "fst (get_sort_state ''bogus'' (IdStr ''1'') STANDARD_VIEW ?S1) = Inr ''date''"
    using t5 b d1 f1 vs k(2) by blast+
  have a6: "fst (get_column_widths ''bogus'' (IdStr ''1'') LIST_VIEW ?S1) = Inl KeyError"
    "fst (update_column_widths ''bogus'' (IdStr ''1'') LIST_VIEW Map.empty ?S1) = Inl KeyError"
    "fst (get_sort_state ''bogus'' (IdStr ''1'') LIST_VIEW ?S1) = Inr ''-name''"
    using t6 b d1 f1 vl(1) k(1) w1 m1 by simp_all
  have a7: "fst (get_column_widths ''bogus'' (IdStr ''1'') LIST_VIEW ?S2) = Inr 0"
    "fst (update_column_widths ''bogus'' (IdStr ''1'') LIST_VIEW Map.empty ?S2) = Inr ()"
    "fst (get_sort_state ''bogus'' (IdStr ''1'') LIST_VIEW ?S2) = Inl KeyError"
    using t7 b d2 f1 vl(2) k(1) w2 m2 nd by simp_all
  have a8: "fst (get_column_widths ''bogus'' (IdStr ''1'') LIST_VIEW ?S3) = Inr 3"
    "fst (update_column_widths ''bogus'' (IdStr ''1'') LIST_VIEW Map.empty ?S3) = Inr ()"
    "fst (get_sort_state ''bogus'' (IdStr ''1'') LIST_VIEW ?S3) = Inl KeyError"
    using t8 b d3 f3 vl(3) k(1) cu3 by blast+
  show ?thesis
    using v b sa nsa u cu3 a1 a2 a3 a4 a5 a6 a7 a8 by simp
qed

text \<open>
  The claim as it was stated has every operation signal an error for an unknown display
  type or view type; \<open>get_scroll_position\<close> and \<open>get_filters\<close> return the default for
  the display type \<open>bogus\<close> and the view type 7.
\<close>

theorem unvalidated_arguments_counterexample:
  "''bogus'' \<notin> get_display_types \<and> 7 \<noteq> LIST_VIEW \<and> 7 \<noteq> STANDARD_VIEW
   \<and> fst (get_scroll_position ''bogus'' (IdStr ''1'') 7 store_init) = Inr (0, 0)
   \<and> fst (get_filters ''bogus'' (IdStr ''1'') store_init) = Inr 0"
proof -
  have b: "''bogus'' \<notin> get_display_types"
    by (simp add: get_display_types_def AVAILABLE_COLUMNS_def)
  have v: "7 \<noteq> LIST_VIEW" "7 \<noteq> STANDARD_VIEW"
    by (simp_all add: STANDARD_VIEW_def LIST_VIEW_def)
  have p: "fst (get_scroll_position ''bogus'' (IdStr ''1'') 7 store_init) = Inr (0, 0)"
    by (simp add: get_scroll_position_total store_init_def)
  have f: "fst (get_filters ''bogus'' (IdStr ''1'') store_init) = Inr 0"
    by (simp add: get_filters_total store_init_def DEFAULT_DISPLAY_FILTERS_def FILTER_VIEW_ALL_def)
  show ?thesis
    using b v p f by simp
qed

end
